theory Spec2Isabelle
  imports Complex_Main "HOL-Library.Sublist"
begin

section \<open>JavaScript building blocks\<close>

text \<open>
  A JavaScript \<^verbatim>\<open>Map\<close> iterates in insertion order, and \<^verbatim>\<open>set\<close> on a key that is
  already present keeps the key's position. The registry and the pipeline both iterate
  over their maps, so a map is an association list with these three operations.
\<close>

type_synonym ('k, 'v) jsmap = "('k \<times> 'v) list"

definition map_get :: "('k, 'v) jsmap \<Rightarrow> 'k \<Rightarrow> 'v option" where
  "map_get m k = map_of m k"

fun map_set :: "('k, 'v) jsmap \<Rightarrow> 'k \<Rightarrow> 'v \<Rightarrow> ('k, 'v) jsmap" where
  "map_set [] k v = [(k, v)]"
| "map_set ((k', v') # m) k v = (if k' = k then (k, v) # m else (k', v') # map_set m k v)"

definition map_delete :: "('k, 'v) jsmap \<Rightarrow> 'k \<Rightarrow> ('k, 'v) jsmap" where
  "map_delete m k = filter (\<lambda>e. fst e \<noteq> k) m"

text \<open>\<^verbatim>\<open>Array.prototype.findIndex\<close> (with \<^verbatim>\<open>-1\<close> as \<open>None\<close>) and \<^verbatim>\<open>splice(i, 1)\<close>.\<close>

fun findIndex :: "('a \<Rightarrow> bool) \<Rightarrow> 'a list \<Rightarrow> nat option" where
  "findIndex P [] = None"
| "findIndex P (x # xs) =
     (if P x then Some 0 else (case findIndex P xs of None \<Rightarrow> None | Some i \<Rightarrow> Some (Suc i)))"

definition splice1 :: "nat \<Rightarrow> 'a list \<Rightarrow> 'a list" where
  "splice1 i xs = take i xs @ drop (Suc i) xs"

text \<open>Truthiness of a value that is either \<^verbatim>\<open>null\<close> or a string.\<close>

fun truthy :: "string option \<Rightarrow> bool" where
  "truthy None = False"
| "truthy (Some s) = (s \<noteq> [])"

section \<open>Session registry (sessionManager.js)\<close>

text \<open>
  A socket object is identified by its id. User objects are shared between the
  \<^verbatim>\<open>users\<close> map, the waiting lists and the sessions, and are mutated through every one
  of these aliases, so they live in a store addressed by references; the maps and lists
  hold references. \<^verbatim>\<open>new Date()\<close> and \<^verbatim>\<open>uuidv4()\<close> are inputs of the operations.
\<close>

datatype socket = Socket (sock_id: string)

type_synonym uref = nat

record user =
  u_socketId :: string
  u_role :: string
  u_language :: string
  u_voiceId :: string
  u_socket :: "socket option"
  u_joinedAt :: int
  u_sessionId :: "string option"

datatype status = Pending | Active | Ended

record stats =
  messagesExchanged :: nat
  totalLatency :: int
  averageLatency :: real
  errors :: nat

record session =
  s_id :: string
  s_doctor :: "uref option"
  s_patient :: "uref option"
  s_createdAt :: int
  s_status :: status
  s_stats :: stats
  s_endedAt :: "int option"

record manager =
  sessions :: "(string, session) jsmap"
  users :: "(string, uref) jsmap"
  waitingDoctors :: "uref list"
  waitingPatients :: "uref list"
  heap :: "uref \<Rightarrow> user"
  nextRef :: uref

record userData =
  d_role :: string
  d_language :: string
  d_voiceId :: string
  d_socket :: "socket option"

datatype event =
    PartnerDisconnected string "string option"
  | WaitingForPartner string

type_synonym emit = "socket \<times> event"

definition zeroStats :: stats where
  "zeroStats = \<lparr>messagesExchanged = 0, totalLatency = 0, averageLatency = 0, errors = 0\<rparr>"

definition createSession :: "manager \<Rightarrow> uref \<Rightarrow> uref \<Rightarrow> string \<Rightarrow> int \<Rightarrow> manager \<times> session" where
  "createSession st doctor patient sessionId now =
     (let sess = \<lparr>s_id = sessionId, s_doctor = Some doctor, s_patient = Some patient,
                  s_createdAt = now, s_status = Active, s_stats = zeroStats, s_endedAt = None\<rparr>;
          h1 = (heap st)(doctor := (heap st doctor)\<lparr>u_sessionId := Some sessionId\<rparr>);
          h2 = h1(patient := (h1 patient)\<lparr>u_sessionId := Some sessionId\<rparr>)
      in (st\<lparr>heap := h2, sessions := map_set (sessions st) sessionId sess\<rparr>, sess))"

definition createPendingSession :: "manager \<Rightarrow> uref \<Rightarrow> string \<Rightarrow> int \<Rightarrow> manager \<times> session" where
  "createPendingSession st u sessionId now =
     (let sess = \<lparr>s_id = sessionId,
                  s_doctor = (if u_role (heap st u) = ''doctor'' then Some u else None),
                  s_patient = (if u_role (heap st u) = ''patient'' then Some u else None),
                  s_createdAt = now, s_status = Pending, s_stats = zeroStats, s_endedAt = None\<rparr>
      in (st\<lparr>sessions := map_set (sessions st) sessionId sess\<rparr>, sess))"

text \<open>
  The first part of \<^verbatim>\<open>addUser\<close>: the reconnection check. \<open>existingUser\<close> is the first
  user, in the insertion order of the \<^verbatim>\<open>users\<close> map, with the joiner's role, language
  and voice id. The socket id of the user object is overwritten before
  \<^verbatim>\<open>this.users.delete(existingUser.socketId)\<close> runs, so the key deleted is the new one.
  When the user's session is not in the \<^verbatim>\<open>sessions\<close> map the function carries on
  with the state changed so far.
\<close>

definition existingUser :: "manager \<Rightarrow> userData \<Rightarrow> uref option" where
  "existingUser st d =
     find (\<lambda>r. u_role (heap st r) = d_role d \<and> u_language (heap st r) = d_language d
                \<and> u_voiceId (heap st r) = d_voiceId d) (map snd (users st))"

definition relinkSlot :: "(uref \<Rightarrow> user) \<Rightarrow> uref option \<Rightarrow> uref \<Rightarrow> string \<Rightarrow> socket option
    \<Rightarrow> (uref \<Rightarrow> user)" where
  "relinkSlot h slot e socketId sock =
     (case slot of
        None \<Rightarrow> h
      | Some m \<Rightarrow> if u_socketId (h m) = u_socketId (h e)
                  then h(m := (h m)\<lparr>u_socket := sock, u_socketId := socketId\<rparr>) else h)"

definition reconnect :: "manager \<Rightarrow> string \<Rightarrow> userData \<Rightarrow> manager \<times> session option" where
  "reconnect st socketId d =
     (case existingUser st d of
        None \<Rightarrow> (st, None)
      | Some e \<Rightarrow>
          if \<not> truthy (u_sessionId (heap st e)) then (st, None)
          else
            let h1 = (heap st)(e := (heap st e)\<lparr>u_socketId := socketId, u_socket := d_socket d\<rparr>);
                us = map_set (map_delete (users st) (u_socketId (h1 e))) socketId e;
                st1 = st\<lparr>heap := h1, users := us\<rparr>
            in (case map_get (sessions st1) (the (u_sessionId (h1 e))) of
                  None \<Rightarrow> (st1, None)
                | Some sess \<Rightarrow>
                    let h2 = relinkSlot h1 (s_doctor sess) e socketId (d_socket d);
                        h3 = relinkSlot h2 (s_patient sess) e socketId (d_socket d)
                    in (st1\<lparr>heap := h3\<rparr>, Some sess)))"

text \<open>The rest of \<^verbatim>\<open>addUser\<close>: a new user object, then matching by role.\<close>

definition matchOrWait :: "manager \<Rightarrow> uref \<Rightarrow> string \<Rightarrow> int \<Rightarrow> manager \<times> (string + session)" where
  "matchOrWait st u sessionId now =
     (let language = u_language (heap st u) in
      if u_role (heap st u) = ''doctor'' then
        (case findIndex (\<lambda>p. u_language (heap st p) \<noteq> language) (waitingPatients st) of
           Some i \<Rightarrow>
             let patient = waitingPatients st ! i;
                 (st', sess) = createSession (st\<lparr>waitingPatients := splice1 i (waitingPatients st)\<rparr>)
                                 u patient sessionId now
             in (st', Inr sess)
         | None \<Rightarrow>
             let (st', sess) = createPendingSession (st\<lparr>waitingDoctors := waitingDoctors st @ [u]\<rparr>)
                                 u sessionId now
             in (st', Inr sess))
      else if u_role (heap st u) = ''patient'' then
        (case findIndex (\<lambda>p. u_language (heap st p) \<noteq> language) (waitingDoctors st) of
           Some i \<Rightarrow>
             let doctor = waitingDoctors st ! i;
                 (st', sess) = createSession (st\<lparr>waitingDoctors := splice1 i (waitingDoctors st)\<rparr>)
                                 doctor u sessionId now
             in (st', Inr sess)
         | None \<Rightarrow>
             let (st', sess) = createPendingSession (st\<lparr>waitingPatients := waitingPatients st @ [u]\<rparr>)
                                 u sessionId now
             in (st', Inr sess))
      else (st, Inl ''Invalid role. Must be \"doctor\" or \"patient\"''))"

definition addUser :: "manager \<Rightarrow> string \<Rightarrow> userData \<Rightarrow> string \<Rightarrow> int \<Rightarrow> manager \<times> (string + session)" where
  "addUser st socketId d sessionId now =
     (case reconnect st socketId d of
        (st', Some sess) \<Rightarrow> (st', Inr sess)
      | (st1, None) \<Rightarrow>
          let u = nextRef st1;
              usr = \<lparr>u_socketId = socketId, u_role = d_role d, u_language = d_language d,
                     u_voiceId = d_voiceId d, u_socket = d_socket d, u_joinedAt = now,
                     u_sessionId = None\<rparr>;
              st2 = st1\<lparr>heap := (heap st1)(u := usr), nextRef := Suc u,
                        users := map_set (users st1) socketId u\<rparr>
          in (case matchOrWait st2 u sessionId now of
                (st3, Inr sess) \<Rightarrow>
                  (st3\<lparr>heap := (heap st3)(u := (heap st3 u)\<lparr>u_sessionId := Some (s_id sess)\<rparr>)\<rparr>,
                   Inr sess)
              | (st3, Inl err) \<Rightarrow> (st3, Inl err)))"

definition getUser :: "manager \<Rightarrow> string \<Rightarrow> uref option" where
  "getUser st socketId = map_get (users st) socketId"

definition getSession :: "manager \<Rightarrow> string \<Rightarrow> session option" where
  "getSession st sessionId = map_get (sessions st) sessionId"

text \<open>
  \<^verbatim>\<open>getPartnerInfo\<close> returns the partner's role, language and join time, or
  \<^verbatim>\<open>null\<close> when the user, its session id, an active session or the partner is missing.
\<close>

definition otherUserOf :: "manager \<Rightarrow> uref \<Rightarrow> session \<Rightarrow> uref option" where
  "otherUserOf st u sess = (if u_role (heap st u) = ''doctor'' then s_patient sess else s_doctor sess)"

definition getPartnerInfo :: "manager \<Rightarrow> string \<Rightarrow> (string \<times> string \<times> int) option" where
  "getPartnerInfo st socketId =
     (case map_get (users st) socketId of
        None \<Rightarrow> None
      | Some u \<Rightarrow>
          if \<not> truthy (u_sessionId (heap st u)) then None
          else (case map_get (sessions st) (the (u_sessionId (heap st u))) of
                  None \<Rightarrow> None
                | Some sess \<Rightarrow>
                    if s_status sess \<noteq> Active then None
                    else (case otherUserOf st u sess of
                            None \<Rightarrow> None
                          | Some partner \<Rightarrow>
                              Some (u_role (heap st partner), u_language (heap st partner),
                                    u_joinedAt (heap st partner)))))"

text \<open>
  \<^verbatim>\<open>removeUser\<close> returns the removed user, or \<^verbatim>\<open>null\<close> for an unknown socket id. The
  unguarded \<^verbatim>\<open>otherUser.socket.emit('waiting-for-partner', ...)\<close> raises a
  \<^verbatim>\<open>TypeError\<close> when the remaining user has no socket; the state changed up to that
  point stays changed.
\<close>

definition requeue :: "manager \<Rightarrow> uref \<Rightarrow> manager" where
  "requeue st ou =
     (let st1 = st\<lparr>heap := (heap st)(ou := (heap st ou)\<lparr>u_sessionId := None\<rparr>)\<rparr>
      in if u_role (heap st1 ou) = ''doctor''
         then st1\<lparr>waitingDoctors := waitingDoctors st1 @ [ou]\<rparr>
         else st1\<lparr>waitingPatients := waitingPatients st1 @ [ou]\<rparr>)"

definition endActive :: "manager \<Rightarrow> uref \<Rightarrow> string \<Rightarrow> session \<Rightarrow> int
    \<Rightarrow> manager \<times> emit list \<times> bool" where
  "endActive st u sessionId sess now =
     (let otherUser = otherUserOf st u sess;
          em1 = (case otherUser of
                   None \<Rightarrow> []
                 | Some ou \<Rightarrow>
                     (case u_socket (heap st ou) of
                        None \<Rightarrow> []
                      | Some s \<Rightarrow>
                          [(s, PartnerDisconnected
                                 (''The '' @ u_role (heap st u) @ '' has disconnected'') None)]));
          st1 = st\<lparr>sessions := map_set (sessions st) sessionId
                     (sess\<lparr>s_status := Ended, s_endedAt := Some now\<rparr>)\<rparr>
      in case otherUser of
           None \<Rightarrow> (st1, em1, True)
         | Some ou \<Rightarrow>
             let st2 = requeue st1 ou
             in (case u_socket (heap st2 ou) of
                   None \<Rightarrow> (st2, em1, False)
                 | Some s \<Rightarrow>
                     (st2, em1 @ [(s, WaitingForPartner
                                        (if u_role (heap st2 ou) = ''doctor'' then ''patient''
                                         else ''doctor''))], True)))"

definition removeUser :: "manager \<Rightarrow> string \<Rightarrow> int \<Rightarrow> manager \<times> emit list \<times> (string + uref option)" where
  "removeUser st socketId now =
     (case map_get (users st) socketId of
        None \<Rightarrow> (st, [], Inr None)
      | Some u \<Rightarrow>
          let st1 = st\<lparr>waitingDoctors := filter (\<lambda>d. u_socketId (heap st d) \<noteq> socketId) (waitingDoctors st),
                       waitingPatients := filter (\<lambda>p. u_socketId (heap st p) \<noteq> socketId) (waitingPatients st)\<rparr>;
              (st2, ems, ok) =
                (if truthy (u_sessionId (heap st1 u)) then
                   (case map_get (sessions st1) (the (u_sessionId (heap st1 u))) of
                      None \<Rightarrow> (st1, [], True)
                    | Some sess \<Rightarrow>
                        if s_status sess = Pending
                        then (st1\<lparr>sessions := map_delete (sessions st1) (the (u_sessionId (heap st1 u)))\<rparr>,
                              [], True)
                        else if s_status sess = Active
                        then endActive st1 u (the (u_sessionId (heap st1 u))) sess now
                        else (st1, [], True))
                 else (st1, [], True))
          in if ok then (st2\<lparr>users := map_delete (users st2) socketId\<rparr>, ems, Inr (Some u))
             else (st2, ems, Inl ''TypeError''))"

text \<open>
  The \<^verbatim>\<open>disconnect\<close> handler of index.js, as far as the registry and the messages go
  (stopping the pipeline and clearing the heartbeat timer send nothing): it looks the
  user up, notifies the partner when \<^verbatim>\<open>getPartnerInfo\<close> finds one, and then calls
  \<^verbatim>\<open>removeUser\<close>.
\<close>

definition disconnectNotice :: "manager \<Rightarrow> string \<Rightarrow> string \<Rightarrow> emit list" where
  "disconnectNotice st socketId reason =
     (case getUser st socketId of
        None \<Rightarrow> []
      | Some u \<Rightarrow>
          (case getPartnerInfo st socketId of
             None \<Rightarrow> []
           | Some partner \<Rightarrow>
               (case getSession st (the (u_sessionId (heap st u))) of
                  None \<Rightarrow> []
                | Some sess \<Rightarrow>
                    (case otherUserOf st u sess of
                       None \<Rightarrow> []
                     | Some ou \<Rightarrow>
                         (case u_socket (heap st ou) of
                            None \<Rightarrow> []
                          | Some partnerSocket \<Rightarrow>
                              [(partnerSocket,
                                PartnerDisconnected (u_role (heap st u) @ '' disconnected'')
                                  (Some reason))])))))"

definition onDisconnect :: "manager \<Rightarrow> string \<Rightarrow> string \<Rightarrow> int
    \<Rightarrow> manager \<times> emit list \<times> (string + uref option)" where
  "onDisconnect st socketId reason now =
     (let em0 = disconnectNotice st socketId reason;
          (st', em1, r) = removeUser st socketId now
      in (st', em0 @ em1, r))"

fun isPartnerDisconnected :: "event \<Rightarrow> bool" where
  "isPartnerDisconnected (PartnerDisconnected m r) = True"
| "isPartnerDisconnected (WaitingForPartner r) = False"

text \<open>The waiting list a joiner of role \<open>r\<close> is matched against, and the one it is queued in.\<close>

definition oppositeList :: "manager \<Rightarrow> string \<Rightarrow> uref list" where
  "oppositeList st r = (if r = ''doctor'' then waitingPatients st else waitingDoctors st)"

definition ownList :: "manager \<Rightarrow> string \<Rightarrow> uref list" where
  "ownList st r = (if r = ''doctor'' then waitingDoctors st else waitingPatients st)"

text \<open>The registry as its constructor leaves it, and registries reached from it by joins.\<close>

definition blankUser :: user where
  "blankUser = \<lparr>u_socketId = [], u_role = [], u_language = [], u_voiceId = [], u_socket = None,
                 u_joinedAt = 0, u_sessionId = None\<rparr>"

definition emptyManager :: manager where
  "emptyManager = \<lparr>sessions = [], users = [], waitingDoctors = [], waitingPatients = [],
                    heap = (\<lambda>r. blankUser), nextRef = 0\<rparr>"

definition joinAs :: "string \<Rightarrow> string \<Rightarrow> string \<Rightarrow> string \<Rightarrow> userData" where
  "joinAs r l v s = \<lparr>d_role = r, d_language = l, d_voiceId = v, d_socket = Some (Socket s)\<rparr>"

definition twoPatientsWaiting :: manager where
  "twoPatientsWaiting =
     fst (addUser (fst (addUser emptyManager ''p1'' (joinAs ''patient'' ''tr'' ''v1'' ''p1'') ''S1'' 10))
            ''p2'' (joinAs ''patient'' ''en'' ''v2'' ''p2'') ''S2'' 20)"

definition doctorWaiting :: manager where
  "doctorWaiting = fst (addUser emptyManager ''s1'' (joinAs ''doctor'' ''tr'' ''v_tr'' ''s1'') ''S1'' 10)"

text \<open>An active session: a doctor (tr) joins while two patients (tr, en) wait.\<close>

definition activePair :: manager where
  "activePair = fst (addUser twoPatientsWaiting ''d1'' (joinAs ''doctor'' ''tr'' ''v3'' ''d1'') ''S3'' 30)"

definition activePairSession :: session where
  "activePairSession = \<lparr>s_id = ''S3'', s_doctor = Some 2, s_patient = Some (Suc 0), s_createdAt = 30,
      s_status = Active, s_stats = zeroStats, s_endedAt = None\<rparr>"

section \<open>Strings\<close>

text \<open>
  Strings are lists of 8-bit characters, read as ASCII text: the white space of
  \<^verbatim>\<open>trim\<close> and of the regular-expression class \<^verbatim>\<open>\s\<close> is the six ASCII white-space
  characters, and \<^verbatim>\<open>toLowerCase\<close> maps A-Z to a-z and leaves every other character.
\<close>

definition isSpace :: "char \<Rightarrow> bool" where
  "isSpace c = (c = CHR '' '' \<or> c = CHR 0x09 \<or> c = CHR 0x0A \<or> c = CHR 0x0B \<or> c = CHR 0x0C
                \<or> c = CHR 0x0D)"

definition trim :: "string \<Rightarrow> string" where
  "trim s = rev (dropWhile isSpace (rev (dropWhile isSpace s)))"

definition lowerChar :: "char \<Rightarrow> char" where
  "lowerChar c =
     (case map_of (zip ''ABCDEFGHIJKLMNOPQRSTUVWXYZ'' ''abcdefghijklmnopqrstuvwxyz'') c of
        None \<Rightarrow> c
      | Some l \<Rightarrow> l)"

definition toLowerCase :: "string \<Rightarrow> string" where
  "toLowerCase s = map lowerChar s"

text \<open>\<^verbatim>\<open>s.split(/\s+/)\<close>: the pieces between maximal runs of white space.\<close>

function splitWs :: "string \<Rightarrow> string \<Rightarrow> string list" where
  "splitWs acc [] = [rev acc]"
| "splitWs acc (c # cs) =
     (if isSpace c then rev acc # splitWs [] (dropWhile isSpace cs) else splitWs (c # acc) cs)"
  by pat_completeness auto
termination
  by (relation "measure (\<lambda>(acc, s). length s)") (auto simp: length_dropWhile_le less_Suc_eq_le)

definition wordsOf :: "string \<Rightarrow> string list" where
  "wordsOf text = splitWs [] (trim text)"

section \<open>Machine translation client (TranslationService.translate)\<close>

text \<open>
  The HTTP call is the only contact with the provider. Its outcome is an input of the
  model: a response body (the \<^verbatim>\<open>translations\<close> array, when present, as pairs of text
  and detected source language), a failure with a response (status and optional
  message), a failure without response (the request went out, nothing came back), or
  any other exception. The function returns the requests it issued together with its
  result or the error it throws.
\<close>

record translateRequest =
  q_text :: "string list"
  q_source_lang :: "string option"
  q_target_lang :: string
  q_timeout :: nat

datatype axiosResult =
    Responded "(string \<times> string) list option"
  | FailedStatus nat "string option"
  | FailedNoResponse
  | FailedOther string

datatype mtError =
    QuotaExceeded
  | ApiKeyInvalid
  | ApiError nat string
  | NetworkError
  | NoTranslationReturned
  | OtherError string

record translation =
  translatedText :: string
  detectedLanguage :: string
  t_confidence :: real

definition mapLanguageForDeepL :: "string \<Rightarrow> string" where
  "mapLanguageForDeepL language =
     (if language = ''en'' then ''EN'' else if language = ''tr'' then ''TR''
      else if language = ''auto'' then ''auto'' else ''EN'')"

definition translate :: "(translateRequest \<Rightarrow> axiosResult) \<Rightarrow> string \<Rightarrow> string \<Rightarrow> string
    \<Rightarrow> translateRequest list \<times> (mtError + translation)" where
  "translate post text sourceLanguage targetLanguage =
     (if text = [] \<or> length (trim text) = 0
      then ([], Inr \<lparr>translatedText = [], detectedLanguage = sourceLanguage, t_confidence = 0\<rparr>)
      else
        let sourceLang = mapLanguageForDeepL sourceLanguage;
            targetLang = mapLanguageForDeepL targetLanguage;
            req = \<lparr>q_text = [text],
                   q_source_lang = (if sourceLang = ''auto'' then None else Some sourceLang),
                   q_target_lang = targetLang, q_timeout = 10000\<rparr>
        in ([req],
            (case post req of
               Responded None \<Rightarrow> Inl NoTranslationReturned
             | Responded (Some []) \<Rightarrow> Inl NoTranslationReturned
             | Responded (Some (t # ts)) \<Rightarrow>
                 Inr \<lparr>translatedText = fst t, detectedLanguage = snd t, t_confidence = 1\<rparr>
             | FailedStatus status message \<Rightarrow>
                 if status = 456 then Inl QuotaExceeded
                 else if status = 403 then Inl ApiKeyInvalid
                 else Inl (ApiError status (case message of None \<Rightarrow> ''Unknown error'' | Some m \<Rightarrow> m))
             | FailedNoResponse \<Rightarrow> Inl NetworkError
             | FailedOther e \<Rightarrow> Inl (OtherError e))))"

text \<open>A provider that is down: every request fails with status 503.\<close>

definition unavailable :: "translateRequest \<Rightarrow> axiosResult" where
  "unavailable req = FailedStatus 503 None"

section \<open>Utterance gate (ProfessionalConversationProcessor)\<close>

text \<open>
  Numbers are JavaScript doubles in the source and exact reals here. Texts are byte
  strings (UTF-8), so the keyword lists carry their Turkish letters as byte sequences;
  \<^verbatim>\<open>includes\<close> and \<^verbatim>\<open>startsWith\<close> agree on bytes and on characters. Within one call
  every read of the clock returns the same instant \<open>now\<close>.
\<close>

text \<open>\<^verbatim>\<open>String.prototype.includes\<close>.\<close>

fun includesStr :: "string \<Rightarrow> string \<Rightarrow> bool" where
  "includesStr [] t = (t = [])"
| "includesStr (c # cs) t = (prefix t (c # cs) \<or> includesStr cs t)"

definition startsWith :: "string \<Rightarrow> string \<Rightarrow> bool" where
  "startsWith s t = prefix t s"

definition endsWith :: "string \<Rightarrow> string \<Rightarrow> bool" where
  "endsWith s t = prefix (rev t) (rev s)"

text \<open>
  The word characters of \<^verbatim>\<open>\w\<close>, and the maximal runs of word characters of a text,
  each with the text that follows it: a match of \<^verbatim>\<open>\b...\b\<close> made of word characters is
  exactly such a run.
\<close>

definition isWordChar :: "char \<Rightarrow> bool" where
  "isWordChar c = (let n = (of_char c :: nat)
                   in (48 \<le> n \<and> n \<le> 57) \<or> (65 \<le> n \<and> n \<le> 90) \<or> n = 95 \<or> (97 \<le> n \<and> n \<le> 122))"

fun wordRuns :: "string \<Rightarrow> string \<Rightarrow> (string \<times> string) list" where
  "wordRuns acc [] = (if acc = [] then [] else [(rev acc, [])])"
| "wordRuns acc (c # cs) =
     (if isWordChar c then wordRuns (c # acc) cs
      else (if acc = [] then [] else [(rev acc, c # cs)]) @ wordRuns [] cs)"

definition medicalKeywords :: "string list" where
  "medicalKeywords =
    [''pain'', ''ache'', ''hurt'', ''symptom'', ''medicine'', ''medication'',
     ''prescription'', ''doctor'', ''nurse'', ''hospital'', ''clinic'',
     ''appointment'', ''diagnosis'', ''blood'', ''pressure'', ''heart'',
     ''temperature'', ''fever'', ''nausea'', ''headache'', ''stomach'', ''chest'',
     ''breathing'', ''dizzy'', ''tired'',
     ''a'' @ [CHR 0xC4, CHR 0x9F] @ ''r'' @ [CHR 0xC4, CHR 0xB1],
     ''ac'' @ [CHR 0xC4, CHR 0xB1], ''belirti'', ''ila'' @ [CHR 0xC3, CHR 0xA7],
     ''re'' @ [CHR 0xC3, CHR 0xA7] @ ''ete'', ''doktor'',
     ''hem'' @ [CHR 0xC5, CHR 0x9F] @ ''ire'', ''hastane'', ''klinik'', ''randevu'',
     ''te'' @ [CHR 0xC5, CHR 0x9F] @ ''his'', ''kan'',
     ''bas'' @ [CHR 0xC4, CHR 0xB1] @ ''n'' @ [CHR 0xC3, CHR 0xA7], ''kalp'',
     ''ate'' @ [CHR 0xC5, CHR 0x9F], ''mide'',
     ''g'' @ [CHR 0xC3, CHR 0xB6, CHR 0xC4, CHR 0x9F, CHR 0xC3, CHR 0xBC] @ ''s'',
     ''nefes'',
     ''ba'' @ [CHR 0xC5, CHR 0x9F] @ '' a'' @ [CHR 0xC4, CHR 0x9F] @ ''r'' @ [CHR 0xC4, CHR 0xB1] @ ''s'' @ [CHR 0xC4, CHR 0xB1],
     ''yorgun'']"

definition urgencyKeywords :: "string list" where
  "urgencyKeywords =
    [''urgent'', ''emergency'', ''help'', ''pain'', ''severe'', ''serious'',
     ''immediately'', ''acil'', ''yard'' @ [CHR 0xC4, CHR 0xB1] @ ''m'',
     ''a'' @ [CHR 0xC4, CHR 0x9F] @ ''r'' @ [CHR 0xC4, CHR 0xB1], ''ciddi'', ''hemen'',
     [CHR 0xC5, CHR 0x9F] @ ''iddetli'']"

definition markers :: "string list" where
  "markers =
    [''so'', ''well'', ''now'', ''then'', ''okay'', ''alright'', ''actually'',
     [CHR 0xC5, CHR 0x9F] @ ''ey'', ''yani'', [CHR 0xC5, CHR 0x9F] @ ''imdi'',
     ''tamam'', ''peki'', ''asl'' @ [CHR 0xC4, CHR 0xB1] @ ''nda'']"

definition topicStarters :: "string list" where
  "topicStarters =
    [''so'', ''now'', ''well'', ''actually'', ''by the way'',
     [CHR 0xC5, CHR 0x9F] @ ''ey'', [CHR 0xC5, CHR 0x9F] @ ''imdi'',
     ''asl'' @ [CHR 0xC4, CHR 0xB1] @ ''nda'']"

definition questionWords :: "string list" where
  "questionWords =
    [''what'', ''how'', ''when'', ''where'', ''why'', ''who'', ''can'', ''could'',
     ''would'', ''should'', ''do'', ''does'', ''did'', ''is'', ''are'', ''was'',
     ''were'']"

definition verbWords :: "string list" where
  "verbWords =
    [''am'', ''is'', ''are'', ''was'', ''were'', ''have'', ''has'', ''had'', ''do'',
     ''does'', ''did'', ''will'', ''would'', ''could'', ''should'', ''can'', ''may'',
     ''might'', ''must'']"

record gateConfig =
  conversationalPauseThreshold :: real
  sentenceCompletionThreshold :: real
  thoughtCompletionThreshold :: real
  emergencyTimeout :: real
  shortMessageTimeout :: real
  minConfidenceThreshold :: real
  minWordsForProcessing :: nat
  minCharactersForProcessing :: nat

text \<open>The configuration the pipeline constructs the processor with (defaults included).\<close>

definition pipelineGateConfig :: gateConfig where
  "pipelineGateConfig =
     \<lparr>conversationalPauseThreshold = 750, sentenceCompletionThreshold = 1200,
      thoughtCompletionThreshold = 2000, emergencyTimeout = 4000, shortMessageTimeout = 3000,
      minConfidenceThreshold = 8 / 10, minWordsForProcessing = 3,
      minCharactersForProcessing = 15\<rparr>"

record conversation =
  c_userId :: string
  c_language :: string
  c_role :: string
  avgSentenceLength :: real
  avgPauseLength :: real
  speechRate :: real
  currentSentence :: string
  sentenceStartTime :: int
  lastProcessedText :: string
  lastProcessingTime :: int
  conversationHistory :: "string list"
  confidenceHistory :: "real list"
  sentencePatterns :: "(nat \<times> real \<times> real \<times> int) list"
  totalSentences :: nat
  shortPause :: real
  mediumPause :: real
  longPause :: real
  medicalTermsUsed :: "string list"
  conversationTopic :: string
  urgencyLevel :: string

record analysis =
  wordCount :: nat
  hasEndPunctuation :: bool
  isQuestion :: bool
  isStatement :: bool
  isExclamation :: bool
  hasCompleteStructure :: bool
  isCompleteThought :: bool
  isSubstantialLength :: bool
  isHighConfidence :: bool
  isTypicalLength :: bool
  completionScore :: real
  medicalTerms :: "string list"
  urgencyIndicators :: "string list"
  conversationMarkers :: "string list"
  buildsOnPrevious :: bool
  startsNewTopic :: bool

record signals =
  g_hasEndPunctuation :: bool
  g_isQuestion :: bool
  g_isStatement :: bool
  g_isExclamation :: bool
  g_hasCompleteStructure :: bool
  g_isCompleteThought :: bool
  g_isSubstantialLength :: bool
  g_isHighConfidence :: bool
  g_isTypicalLength :: bool
  g_medicalTerms :: "string list"
  g_urgencyIndicators :: "string list"
  g_conversationMarkers :: "string list"
  g_buildsOnPrevious :: bool
  g_startsNewTopic :: bool
  g_wordCount :: nat
  g_avgLength :: real

record pending =
  pe_text :: string
  pe_confidence :: real
  pe_analysis :: analysis
  pe_waitTime :: real
  pe_timestamp :: int
  pe_isShortMessage :: bool

record processor =
  config :: gateConfig
  userConversations :: "(string, conversation) jsmap"
  activeProcessing :: "(string, pending) jsmap"
  recentlyProcessed :: "(string, string \<times> int) jsmap"

record speechReady =
  r_userId :: string
  r_text :: string
  r_confidence :: real
  r_analysis :: analysis
  r_timestamp :: int


definition initializeProfessionalConversation :: "processor \<Rightarrow> string \<Rightarrow> string \<Rightarrow> string \<Rightarrow> int
    \<Rightarrow> processor" where
  "initializeProfessionalConversation g userId language role now =
     g\<lparr>userConversations := map_set (userConversations g) userId
         \<lparr>c_userId = userId, c_language = language, c_role = role,
          avgSentenceLength = (if role = ''doctor'' then 12 else 8),
          avgPauseLength = (if role = ''doctor'' then 1000 else 800),
          speechRate = (if role = ''doctor'' then 130 else 150),
          currentSentence = [], sentenceStartTime = now, lastProcessedText = [],
          lastProcessingTime = 0, conversationHistory = [], confidenceHistory = [],
          sentencePatterns = [], totalSentences = 0,
          shortPause = conversationalPauseThreshold (config g),
          mediumPause = sentenceCompletionThreshold (config g),
          longPause = thoughtCompletionThreshold (config g),
          medicalTermsUsed = [], conversationTopic = ''general'', urgencyLevel = ''normal''\<rparr>\<rparr>"

definition detectMedicalTerms :: "string \<Rightarrow> string list" where
  "detectMedicalTerms text = filter (\<lambda>term. includesStr (toLowerCase text) (toLowerCase term)) medicalKeywords"

definition detectUrgency :: "string \<Rightarrow> string list" where
  "detectUrgency text = filter (\<lambda>term. includesStr (toLowerCase text) (toLowerCase term)) urgencyKeywords"

definition detectConversationMarkers :: "string \<Rightarrow> string list" where
  "detectConversationMarkers text =
     filter (\<lambda>term. startsWith (toLowerCase text) (toLowerCase term)) markers"

text \<open>
  \<^verbatim>\<open>hasVerb\<close>. English: a run that is one of the verb words, or a run of more than three
  characters ending in ing, or of more than two ending in ed. Turkish:
  \<^verbatim>\<open>/\b\w+(yor|du|di|mus|mis|mis|acak|ecek|ir|er|ar|ur)\b/i\<close>, where the three
  alternatives written here with s end in s-cedilla (bytes C5 9F, upper case C5 9E), the
  third with dotless i (C4 B1) before it; these letters are not word characters, so the
  run ends before them and the closing \<^verbatim>\<open>\b\<close> asks for a word character after them.
\<close>

definition runHasSuffix :: "string \<Rightarrow> string \<Rightarrow> bool" where
  "runHasSuffix r s = (endsWith (toLowerCase r) s \<and> length r > length s)"

definition followedBy :: "string \<Rightarrow> string \<Rightarrow> bool" where
  "followedBy rest lit = (prefix lit rest \<and> (case drop (length lit) rest of [] \<Rightarrow> False | c # cs \<Rightarrow> isWordChar c))"

definition hasVerb :: "string \<Rightarrow> string \<Rightarrow> bool" where
  "hasVerb text language =
     (if language = ''en'' then
        (\<exists>r\<in>set (wordRuns [] text). toLowerCase (fst r) \<in> set verbWords)
        \<or> (\<exists>r\<in>set (wordRuns [] text). runHasSuffix (fst r) ''ing'' \<or> runHasSuffix (fst r) ''ed'')
      else if language = ''tr'' then
        (\<exists>r\<in>set (wordRuns [] text).
            (\<exists>s\<in>set [''yor'', ''du'', ''di'', ''acak'', ''ecek'', ''ir'', ''er'', ''ar'', ''ur''].
                runHasSuffix (fst r) s)
            \<or> ((runHasSuffix (fst r) ''mu'' \<or> runHasSuffix (fst r) ''mi'')
                \<and> (followedBy (snd r) [CHR 0xC5, CHR 0x9F] \<or> followedBy (snd r) [CHR 0xC5, CHR 0x9E]))
            \<or> (runHasSuffix (fst r) ''m''
                \<and> (followedBy (snd r) [CHR 0xC4, CHR 0xB1, CHR 0xC5, CHR 0x9F]
                     \<or> followedBy (snd r) [CHR 0xC4, CHR 0xB1, CHR 0xC5, CHR 0x9E])))
      else True)"

definition isCompleteThoughtOf :: "string \<Rightarrow> conversation \<Rightarrow> bool" where
  "isCompleteThoughtOf text conv =
     (length (wordsOf text) \<ge> 3
      \<and> (includesStr text ''.'' \<or> includesStr text ''?'' \<or> includesStr text ''!''
           \<or> real (length (wordsOf text)) \<ge> avgSentenceLength conv * (8 / 10)))"

text \<open>\<^verbatim>\<open>s.split(' ')[0]\<close>: the text before the first space.\<close>

definition buildsOnPreviousSentence :: "string \<Rightarrow> conversation \<Rightarrow> bool" where
  "buildsOnPreviousSentence text conv =
     (if conversationHistory conv = [] then False
      else includesStr (toLowerCase text)
             (takeWhile (\<lambda>c. c \<noteq> CHR '' '') (toLowerCase (last (conversationHistory conv)))))"

definition startsNewTopicOf :: "string \<Rightarrow> bool" where
  "startsNewTopicOf text = (\<exists>starter\<in>set topicStarters. startsWith (toLowerCase text) (toLowerCase starter))"

definition calculateProfessionalCompletionScore :: "signals \<Rightarrow> real" where
  "calculateProfessionalCompletionScore s =
     (let lengthRatio = real (g_wordCount s) / g_avgLength s;
          score =
            (if g_hasEndPunctuation s then 35 / 100 else 0)
            + (if g_isQuestion s
               then (if g_wordCount s \<ge> 3 then 4 / 10 else if g_wordCount s \<ge> 2 then 2 / 10 else 1 / 10)
               else 0)
            + (if g_isStatement s then 3 / 10 else 0)
            + (if g_isExclamation s then 25 / 100 else 0)
            + (if g_hasCompleteStructure s then 25 / 100 else 0)
            + (if g_isCompleteThought s then 3 / 10 else 0)
            + (if g_isSubstantialLength s then 15 / 100 else 0)
            + (if g_isHighConfidence s then 1 / 10 else 0)
            + (if lengthRatio \<ge> 8 / 10 then 1 / 10 else 0)
            + (if lengthRatio \<ge> 12 / 10 then 5 / 100 else 0)
            + (if length (g_medicalTerms s) > 0 then 1 / 10 else 0)
            + (if length (g_urgencyIndicators s) > 0 then 15 / 100 else 0)
            + (if length (g_conversationMarkers s) > 0 then 5 / 100 else 0)
            + (if g_startsNewTopic s then 1 / 10 else 0)
            - (if g_buildsOnPrevious s then 1 / 10 else 0)
      in min score 1)"

definition analyzeProfessionalSpeech :: "gateConfig \<Rightarrow> string \<Rightarrow> real \<Rightarrow> conversation \<Rightarrow> analysis" where
  "analyzeProfessionalSpeech cfg text confidence conv =
     (let wc = length (wordsOf text);
          hasEnd = (trim text \<noteq> [] \<and> last (trim text) \<in> {CHR ''.'', CHR ''!'', CHR ''?''});
          isQ = (includesStr text ''?'' \<or> (\<exists>w\<in>set questionWords. prefix w (toLowerCase text)));
          isS = (hasEnd \<and> \<not> isQ);
          isE = includesStr text ''!'';
          med = detectMedicalTerms text;
          urg = detectUrgency text;
          mk = detectConversationMarkers text;
          hasSubject = (wc \<ge> 2);
          hasV = hasVerb text (c_language conv);
          complete = (hasSubject \<and> hasV);
          thought = isCompleteThoughtOf text conv;
          substantial = (wc \<ge> minWordsForProcessing cfg);
          highConf = (confidence \<ge> minConfidenceThreshold cfg);
          typical = (real wc \<ge> avgSentenceLength conv * (6 / 10));
          builds = buildsOnPreviousSentence text conv;
          newTopic = startsNewTopicOf text;
          score = calculateProfessionalCompletionScore
                    \<lparr>g_hasEndPunctuation = hasEnd, g_isQuestion = isQ, g_isStatement = isS,
                     g_isExclamation = isE, g_hasCompleteStructure = complete,
                     g_isCompleteThought = thought, g_isSubstantialLength = substantial,
                     g_isHighConfidence = highConf, g_isTypicalLength = typical,
                     g_medicalTerms = med, g_urgencyIndicators = urg, g_conversationMarkers = mk,
                     g_buildsOnPrevious = builds, g_startsNewTopic = newTopic,
                     g_wordCount = wc, g_avgLength = avgSentenceLength conv\<rparr>
      in \<lparr>wordCount = wc, hasEndPunctuation = hasEnd, isQuestion = isQ, isStatement = isS,
          isExclamation = isE, hasCompleteStructure = complete, isCompleteThought = thought,
          isSubstantialLength = substantial, isHighConfidence = highConf, isTypicalLength = typical,
          completionScore = score, medicalTerms = med, urgencyIndicators = urg,
          conversationMarkers = mk, buildsOnPrevious = builds, startsNewTopic = newTopic\<rparr>)"

definition isDuplicate :: "processor \<Rightarrow> string \<Rightarrow> string \<Rightarrow> int \<Rightarrow> bool" where
  "isDuplicate g userId text now =
     (case map_get (recentlyProcessed g) userId of
        None \<Rightarrow> False
      | Some recent \<Rightarrow> fst recent = text \<and> now - snd recent < 3000)"

definition markAsProcessed :: "processor \<Rightarrow> string \<Rightarrow> string \<Rightarrow> int \<Rightarrow> processor" where
  "markAsProcessed g userId text now =
     g\<lparr>recentlyProcessed := map_set (recentlyProcessed g) userId (text, now)\<rparr>"


definition updateProfessionalLearning :: "conversation \<Rightarrow> string \<Rightarrow> real \<Rightarrow> analysis \<Rightarrow> int
    \<Rightarrow> conversation" where
  "updateProfessionalLearning conv text confidence a now =
     (let n = length (wordsOf text);
          processingTime = now - sentenceStartTime conv;
          ch = confidenceHistory conv @ [confidence];
          sp = sentencePatterns conv @ [(n, confidence, completionScore a, now)]
      in conv\<lparr>avgSentenceLength := avgSentenceLength conv * (85 / 100) + real n * (15 / 100),
              totalSentences := Suc (totalSentences conv),
              medicalTermsUsed := (if length (medicalTerms a) > 0
                                   then medicalTermsUsed conv @ medicalTerms a
                                   else medicalTermsUsed conv),
              mediumPause := mediumPause conv * (8 / 10) + real_of_int processingTime * (2 / 10),
              confidenceHistory := (if length ch > 10 then tl ch else ch),
              sentencePatterns := (if length sp > 20 then tl sp else sp)\<rparr>)"


definition clearPendingProcessing :: "processor \<Rightarrow> string \<Rightarrow> processor" where
  "clearPendingProcessing g userId =
     (case map_get (activeProcessing g) userId of
        None \<Rightarrow> g
      | Some p \<Rightarrow> g\<lparr>activeProcessing := map_delete (activeProcessing g) userId\<rparr>)"

definition combineSentenceContext :: "processor \<Rightarrow> string \<Rightarrow> string \<Rightarrow> string" where
  "combineSentenceContext g userId text =
     (case map_get (userConversations g) userId of
        None \<Rightarrow> text
      | Some conv \<Rightarrow>
          if length (currentSentence conv) > length text
             \<and> includesStr (currentSentence conv) (trim text)
          then currentSentence conv else text)"


text \<open>
  \<^verbatim>\<open>processImmediatelyProfessional\<close> returns the processor, the
  \<^verbatim>\<open>professional_speech_ready\<close> events it emitted, and whether it completed: without a
  conversation for the user, \<^verbatim>\<open>conversation.currentSentence = ''\<close> raises a
  \<^verbatim>\<open>TypeError\<close> after the text has been marked as processed.
\<close>

definition processImmediatelyProfessional :: "processor \<Rightarrow> string \<Rightarrow> string \<Rightarrow> real \<Rightarrow> analysis
    \<Rightarrow> int \<Rightarrow> processor \<times> speechReady list \<times> bool" where
  "processImmediatelyProfessional g userId text confidence a now =
     (let finalText = combineSentenceContext g userId text
      in if isDuplicate g userId finalText now then (g, [], True)
         else
           let g1 = markAsProcessed g userId finalText now
           in (case map_get (userConversations g1) userId of
                 None \<Rightarrow> (g1, [], False)
               | Some conv \<Rightarrow>
                   let conv1 = updateProfessionalLearning conv finalText confidence a now;
                       conv2 = conv1\<lparr>currentSentence := [], sentenceStartTime := now\<rparr>;
                       g2 = g1\<lparr>userConversations := map_set (userConversations g1) userId conv2\<rparr>
                   in (clearPendingProcessing g2 userId,
                       [\<lparr>r_userId = userId, r_text = finalText, r_confidence = confidence,
                         r_analysis = a, r_timestamp = now\<rparr>],
                       True)))"



definition timerExpired :: "processor \<Rightarrow> string \<Rightarrow> string \<Rightarrow> real \<Rightarrow> analysis \<Rightarrow> int
    \<Rightarrow> processor \<times> speechReady list \<times> bool" where
  "timerExpired g userId text confidence a now =
     (case map_get (activeProcessing g) userId of
        None \<Rightarrow> (g, [], True)
      | Some cur \<Rightarrow>
          if pe_text cur = text
          then processImmediatelyProfessional g userId (combineSentenceContext g userId text)
                 confidence a now
          else (g, [], True))"

record transcriptionData =
  td_text :: string
  td_confidence :: real
  td_isFinal :: bool
  td_timestamp :: int


text \<open>The processor the pipeline constructs, and a patient (en) and a doctor (tr) registered in it.\<close>

definition newProcessor :: processor where
  "newProcessor = \<lparr>config = pipelineGateConfig, userConversations = [], activeProcessing = [],
                    recentlyProcessed = []\<rparr>"


definition doctorGate :: processor where
  "doctorGate = initializeProfessionalConversation newProcessor ''d1'' ''tr'' ''doctor'' 1000"

text \<open>A sequence of firings of one conversation: text, confidence, analysis and time of each.\<close>

definition learn :: "conversation \<Rightarrow> (string \<times> real \<times> analysis \<times> int) list \<Rightarrow> conversation" where
  "learn conv fs = foldl (\<lambda>c f. updateProfessionalLearning c (fst f) (fst (snd f)) (fst (snd (snd f)))
                                   (snd (snd (snd f)))) conv fs"

definition freshConversation :: "string \<Rightarrow> string \<Rightarrow> string \<Rightarrow> int \<Rightarrow> conversation" where
  "freshConversation userId language role now =
     the (map_get (userConversations (initializeProfessionalConversation newProcessor userId language role now))
            userId)"

text \<open>
  The transcript "nurse." at confidence 0.5, and an utterance of 2000 one-letter words.
\<close>

definition nurse :: transcriptionData where
  "nurse = \<lparr>td_text = ''nurse.'', td_confidence = 5 / 10, td_isFinal = False, td_timestamp = 1500\<rparr>"

definition nurseAnalysis :: analysis where
  "nurseAnalysis = analyzeProfessionalSpeech pipelineGateConfig ''nurse.'' (5 / 10)
                     (freshConversation ''p2'' ''en'' ''patient'' 1000)"

definition longUtterance :: string where
  "longUtterance = CHR ''a'' # concat (replicate 1999 '' a'')"

section \<open>Speech synthesis client (StreamingSynthesisService)\<close>

text \<open>
  \<^verbatim>\<open>Number.prototype.toFixed(1)\<close> on exact reals: the nearest tenth, the larger one on a
  tie, the sign in front.
\<close>

definition digitChar :: "nat \<Rightarrow> char" where
  "digitChar d = (''0123456789'' ! (d mod 10))"

function showNat :: "nat \<Rightarrow> string" where
  "showNat n = (if n < 10 then [digitChar n] else showNat (n div 10) @ [digitChar (n mod 10)])"
  by pat_completeness auto
termination
  by (relation "measure id") auto

definition toFixed1 :: "real \<Rightarrow> string" where
  "toFixed1 x =
     (let n = nat \<lfloor>\<bar>x\<bar> * 10 + 1 / 2\<rfloor>
      in (if x < 0 then ''-'' else []) @ showNat (n div 10) @ ''.'' @ [digitChar (n mod 10)])"

record voiceSettings =
  stability :: real
  similarity_boost :: real
  style :: real
  use_speaker_boost :: bool

record emotionalProfile =
  primaryEmotion :: string
  intensity :: real
  tonality :: string
  e_confidence :: real
  e_voiceSettings :: "voiceSettings option"

record ttsRequest =
  tq_voiceId :: string
  tq_text :: string
  tq_model_id :: string
  tq_voice_settings :: voiceSettings
  tq_timeout :: nat

text \<open>
  What one HTTP request to the provider gives: the audio (as the base64 text the client
  makes of it; empty when the body has no bytes), or a failure with the response status
  when there is a response.
\<close>

datatype ttsResponse = TtsData string | TtsFailed "nat option"

datatype ttsError = TtsError "nat option"

record cacheEntry =
  ce_result :: "string option"
  ce_timestamp :: int

datatype origin = ExactHit | SimilarHit | Provider

definition getOptimizedSettings :: "string \<Rightarrow> voiceSettings" where
  "getOptimizedSettings language =
     (if language = ''tr''
      then \<lparr>stability = 8 / 10, similarity_boost = 85 / 100, style = 3 / 10, use_speaker_boost = True\<rparr>
      else if language = ''en''
      then \<lparr>stability = 7 / 10, similarity_boost = 8 / 10, style = 4 / 10, use_speaker_boost = True\<rparr>
      else \<lparr>stability = 75 / 100, similarity_boost = 8 / 10, style = 3 / 10, use_speaker_boost = True\<rparr>)"

definition getModelForLanguage :: "string \<Rightarrow> string" where
  "getModelForLanguage language = ''eleven_turbo_v2_5''"

text \<open>
  The retry loop of \<^verbatim>\<open>synthesizeWithRetry\<close>, from attempt \<open>attempt\<close> with \<open>k\<close> attempts left;
  \<open>post req attempt\<close> is the outcome of the request made at that attempt. A loop that
  runs out of attempts without returning gives \<^verbatim>\<open>undefined\<close>.
\<close>

fun retryLoop :: "(ttsRequest \<Rightarrow> nat \<Rightarrow> ttsResponse) \<Rightarrow> ttsRequest \<Rightarrow> nat \<Rightarrow> nat
    \<Rightarrow> ttsError + string option" where
  "retryLoop post req attempt 0 = Inr None"
| "retryLoop post req attempt (Suc k) =
     (case post req attempt of
        TtsData d \<Rightarrow> if d \<noteq> [] then Inr (Some d) else Inr None
      | TtsFailed status \<Rightarrow>
          if status = Some 429 \<and> k \<noteq> 0 then retryLoop post req (Suc attempt) k
          else Inl (TtsError status))"

definition synthesizeWithRetry :: "(ttsRequest \<Rightarrow> nat \<Rightarrow> ttsResponse) \<Rightarrow> string \<Rightarrow> string \<Rightarrow> string
    \<Rightarrow> emotionalProfile option \<Rightarrow> nat \<Rightarrow> ttsError + string option" where
  "synthesizeWithRetry post voiceId text language emo maxRetries =
     (let vs = (case emo of
                  None \<Rightarrow> getOptimizedSettings language
                | Some e \<Rightarrow> (case e_voiceSettings e of
                               None \<Rightarrow> getOptimizedSettings language
                             | Some s \<Rightarrow> s));
          req = \<lparr>tq_voiceId = voiceId, tq_text = text, tq_model_id = getModelForLanguage language,
                 tq_voice_settings = vs, tq_timeout = 15000\<rparr>
      in retryLoop post req 1 maxRetries)"

definition cleanCache :: "(string, cacheEntry) jsmap \<Rightarrow> int \<Rightarrow> (string, cacheEntry) jsmap" where
  "cleanCache cache now = filter (\<lambda>e. \<not> (now - ce_timestamp (snd e) > 10000)) cache"

definition emotionKeyOf :: "emotionalProfile option \<Rightarrow> string" where
  "emotionKeyOf emo =
     (case emo of
        None \<Rightarrow> ''neutral''
      | Some e \<Rightarrow> primaryEmotion e @ ''-'' @ toFixed1 (intensity e))"

definition baseTextKeyOf :: "string \<Rightarrow> string \<Rightarrow> string \<Rightarrow> string" where
  "baseTextKeyOf voiceId text language = voiceId @ ''-'' @ trim text @ ''-'' @ language"

definition cacheKeyOf :: "string \<Rightarrow> string \<Rightarrow> string \<Rightarrow> emotionalProfile option \<Rightarrow> string" where
  "cacheKeyOf voiceId text language emo =
     voiceId @ ''-'' @ trim text @ ''-'' @ language @ ''-'' @ emotionKeyOf emo"

text \<open>
  \<^verbatim>\<open>synthesizeChunk\<close>: \<open>now\<close> is the clock read before the lookups (it becomes the
  timestamp of a new entry), \<open>cleanNow\<close> the clock read by \<^verbatim>\<open>cleanCache\<close> after the
  provider has answered. The result says where the audio came from.
\<close>

definition synthesizeChunk :: "(string, cacheEntry) jsmap \<Rightarrow> (ttsRequest \<Rightarrow> nat \<Rightarrow> ttsResponse)
    \<Rightarrow> string \<Rightarrow> string \<Rightarrow> string \<Rightarrow> emotionalProfile option \<Rightarrow> int \<Rightarrow> int
    \<Rightarrow> (string, cacheEntry) jsmap \<times> (ttsError + string option) \<times> origin" where
  "synthesizeChunk cache post voiceId text language emo now cleanNow =
     (let trimmedText = trim text;
          cacheKey = cacheKeyOf voiceId text language emo;
          baseTextKey = baseTextKeyOf voiceId text language;
          exact = (case map_get cache cacheKey of
                     None \<Rightarrow> None
                   | Some cached \<Rightarrow> if now - ce_timestamp cached < 5000 then Some cached else None)
      in case exact of
           Some cached \<Rightarrow> (cache, Inr (ce_result cached), ExactHit)
         | None \<Rightarrow>
             (case find (\<lambda>e. prefix baseTextKey (fst e) \<and> now - ce_timestamp (snd e) < 3000) cache of
                Some e \<Rightarrow> (cache, Inr (ce_result (snd e)), SimilarHit)
              | None \<Rightarrow>
                  (case synthesizeWithRetry post voiceId trimmedText language emo 3 of
                     Inl err \<Rightarrow> (cache, Inl err, Provider)
                   | Inr result \<Rightarrow>
                       (cleanCache (map_set cache cacheKey
                                      \<lparr>ce_result = result, ce_timestamp = now\<rparr>) cleanNow,
                        Inr result, Provider))))"

text \<open>
  A provider whose audio depends on the voice settings, and two emotional profiles with
  different settings.
\<close>

definition styledVoice :: "ttsRequest \<Rightarrow> nat \<Rightarrow> ttsResponse" where
  "styledVoice req attempt =
     TtsData (if style (tq_voice_settings req) > 1 / 2 then ''RVhDSVRFRA=='' else ''Q0FMTQ=='')"

definition calm :: emotionalProfile where
  "calm = \<lparr>primaryEmotion = ''calm'', intensity = 3 / 10, tonality = ''neutral'', e_confidence = 7 / 10,
           e_voiceSettings = Some \<lparr>stability = 8 / 10, similarity_boost = 8 / 10, style = 2 / 10,
                                   use_speaker_boost = True\<rparr>\<rparr>"

definition excited :: emotionalProfile where
  "excited = \<lparr>primaryEmotion = ''excited'', intensity = 8 / 10, tonality = ''positive'',
              e_confidence = 7 / 10,
              e_voiceSettings = Some \<lparr>stability = 4 / 10, similarity_boost = 8 / 10, style = 8 / 10,
                                      use_speaker_boost = True\<rparr>\<rparr>"

definition cacheAfterCalm :: "(string, cacheEntry) jsmap" where
  "cacheAfterCalm = fst (synthesizeChunk [] styledVoice ''v1'' ''merhaba'' ''tr'' (Some calm) 0 400)"

definition cacheAfterExcited :: "(string, cacheEntry) jsmap" where
  "cacheAfterExcited =
     fst (synthesizeChunk cacheAfterCalm styledVoice ''v1'' ''merhaba'' ''tr'' (Some excited) 3500 3900)"

section \<open>Streaming transcription service (sendAudioData)\<close>

text \<open>
  An audio frame is the base64 text of the message's \<^verbatim>\<open>audioData\<close> field. The clients
  of the speech recognizers send it on decoded (\<open>DeepgramSend a\<close> stands for
  \<^verbatim>\<open>ws.send(Buffer.from(a, 'base64'))\<close>) or buffer it as it is. The number of bytes of a
  frame is the number of bytes its base64 text (without white space) decodes to.
\<close>

definition base64ByteLength :: "string \<Rightarrow> nat" where
  "base64ByteLength a = (length (takeWhile (\<lambda>c. c \<noteq> CHR ''='') a) * 3) div 4"

datatype wsState = WsConnecting | WsOpen | WsClosing | WsClosed

record connection =
  cn_isConnected :: bool
  cn_restMode :: bool
  cn_language :: string
  cn_audioBuffer :: "string list"
  cn_ws :: "wsState option"
  cn_lastActivity :: int

record googleConn =
  gc_isConnected :: bool
  gc_hasStream :: bool
  gc_lastActivity :: int
  gc_totalAudioSent :: nat

record assemblyConn =
  ac_isConnected :: bool
  ac_ws :: "wsState option"
  ac_lastActivity :: int

record whisperConn =
  wc_isConnected :: bool
  wc_language :: string
  wc_audioBuffer :: "string list"
  wc_lastActivity :: int

record transcriber =
  t_activeConnections :: "(string, connection) jsmap"
  t_google :: "(string, googleConn) jsmap"
  t_assembly :: "(string, assemblyConn) jsmap"
  t_whisper :: "(string, whisperConn) jsmap"

datatype asrOut =
    DeepgramSend string
  | DeepgramRest string string
  | GoogleWrite string
  | AssemblySend string
  | WhisperProcess string string

definition googleSendAudioData :: "transcriber \<Rightarrow> string \<Rightarrow> string \<Rightarrow> int
    \<Rightarrow> transcriber \<times> bool \<times> asrOut list" where
  "googleSendAudioData t userId audioData now =
     (case map_get (t_google t) userId of
        None \<Rightarrow> (t, False, [])
      | Some c \<Rightarrow>
          if \<not> gc_isConnected c \<or> \<not> gc_hasStream c then (t, False, [])
          else (t\<lparr>t_google := map_set (t_google t) userId
                     (c\<lparr>gc_lastActivity := now,
                        gc_totalAudioSent := gc_totalAudioSent c + base64ByteLength audioData\<rparr>)\<rparr>,
                True, [GoogleWrite audioData]))"

definition assemblySendAudioData :: "transcriber \<Rightarrow> string \<Rightarrow> string \<Rightarrow> int
    \<Rightarrow> transcriber \<times> bool \<times> asrOut list" where
  "assemblySendAudioData t userId audioData now =
     (case map_get (t_assembly t) userId of
        None \<Rightarrow> (t, False, [])
      | Some c \<Rightarrow>
          if \<not> ac_isConnected c then (t, False, [])
          else if ac_ws c = Some WsOpen
          then (t\<lparr>t_assembly := map_set (t_assembly t) userId (c\<lparr>ac_lastActivity := now\<rparr>)\<rparr>,
                True, [AssemblySend audioData])
          else (t, False, []))"

definition whisperSendAudioData :: "transcriber \<Rightarrow> string \<Rightarrow> string \<Rightarrow> int
    \<Rightarrow> transcriber \<times> bool \<times> asrOut list" where
  "whisperSendAudioData t userId audioData now =
     (case map_get (t_whisper t) userId of
        None \<Rightarrow> (t, False, [])
      | Some c \<Rightarrow>
          if \<not> wc_isConnected c then (t, False, [])
          else
            let buf = wc_audioBuffer c @ [audioData];
                chunksNeeded = (if wc_language c = ''tr'' then 25 else 30 :: nat)
            in if length buf \<ge> chunksNeeded
               then (t\<lparr>t_whisper := map_set (t_whisper t) userId
                          (c\<lparr>wc_audioBuffer := [], wc_lastActivity := now\<rparr>)\<rparr>,
                     True, [WhisperProcess userId (concat buf)])
               else (t\<lparr>t_whisper := map_set (t_whisper t) userId
                          (c\<lparr>wc_audioBuffer := buf, wc_lastActivity := now\<rparr>)\<rparr>,
                     True, []))"

definition sendAudioData :: "transcriber \<Rightarrow> string \<Rightarrow> string \<Rightarrow> int
    \<Rightarrow> transcriber \<times> bool \<times> asrOut list" where
  "sendAudioData t userId audioData now =
     (let own = (case map_get (t_activeConnections t) userId of
                   None \<Rightarrow> None
                 | Some c \<Rightarrow> if cn_isConnected c then Some c else None)
      in case own of
           None \<Rightarrow>
             if (case map_get (t_google t) userId of None \<Rightarrow> False | Some c \<Rightarrow> gc_isConnected c)
             then googleSendAudioData t userId audioData now
             else if length (t_assembly t) > 0 then assemblySendAudioData t userId audioData now
             else if length (t_whisper t) > 0 then whisperSendAudioData t userId audioData now
             else (t, False, [])
         | Some c \<Rightarrow>
             if cn_restMode c then
               let buf = cn_audioBuffer c @ [audioData];
                   chunksNeeded = (if cn_language c = ''tr'' then 15 else 20 :: nat)
               in if length buf \<ge> chunksNeeded
                  then (t\<lparr>t_activeConnections := map_set (t_activeConnections t) userId
                             (c\<lparr>cn_audioBuffer := [], cn_lastActivity := now\<rparr>)\<rparr>,
                        True, [DeepgramRest userId (concat buf)])
                  else (t\<lparr>t_activeConnections := map_set (t_activeConnections t) userId
                             (c\<lparr>cn_audioBuffer := buf, cn_lastActivity := now\<rparr>)\<rparr>,
                        True, [])
             else (case cn_ws c of
                     None \<Rightarrow> (t, False, [])
                   | Some ws \<Rightarrow>
                       if ws = WsOpen
                       then (t\<lparr>t_activeConnections := map_set (t_activeConnections t) userId
                                  (c\<lparr>cn_lastActivity := now\<rparr>)\<rparr>,
                             True, [DeepgramSend audioData])
                       else (t, False, [])))"

section \<open>Pipeline orchestrator (streamingTranslationPipeline.js)\<close>

record pstats =
  n_audioChunks :: nat
  n_partialResults :: nat
  n_finalResults :: nat
  n_translations :: nat
  n_synthesisChunks :: nat

record sessionInfo =
  p_sessionId :: string
  p_userId :: string
  p_userLanguage :: string
  p_partnerLanguage :: string
  p_partnerVoiceId :: string
  p_socket :: "socket option"
  p_role :: string
  p_isActive :: bool
  p_startTime :: int
  p_lastActivity :: int
  p_stats :: pstats
  p_audioBuffer :: "(string \<times> int) list option"
  p_lastProcessedNormalized :: "string option"
  p_lastProcessedAt :: "int option"

record pipeline =
  activeSessions :: "(string, sessionInfo) jsmap"
  emotionalProfiles :: "(string, emotionalProfile) jsmap"
  asr :: transcriber

record audioChunk =
  k_audioData :: string
  k_text :: string
  k_isFinal :: bool
  k_timestamp :: int

text \<open>
  Messages to clients, without their timestamps and latency figures. The emotion summary
  of a translation is the profile's primary emotion, intensity, tonality and confidence.
\<close>

datatype failure = TranslationThrew mtError | EmptyTranslation | EmitFailed

datatype pmsg =
    LiveTranslation string string string string string "(string \<times> real \<times> string \<times> real) option"
  | SynthesizedAudio string string bool string string
  | LatencyStats
  | PipelineError failure


definition findPartnerSession :: "pipeline \<Rightarrow> string \<Rightarrow> (string \<times> sessionInfo) option" where
  "findPartnerSession pl userId =
     (case map_get (activeSessions pl) userId of
        None \<Rightarrow> None
      | Some userSession \<Rightarrow>
          find (\<lambda>e. fst e \<noteq> userId \<and> p_sessionId (snd e) = p_sessionId userSession
                     \<and> p_isActive (snd e)) (activeSessions pl))"

definition handleSynthesisChunk :: "pipeline \<Rightarrow> string \<Rightarrow> audioChunk \<Rightarrow> int
    \<Rightarrow> pipeline \<times> (socket \<times> pmsg) list" where
  "handleSynthesisChunk pl userId chunk now =
     (case map_get (activeSessions pl) userId of
        None \<Rightarrow> (pl, [])
      | Some session \<Rightarrow>
          let session1 = session\<lparr>p_stats := (p_stats session)\<lparr>n_synthesisChunks :=
                                     Suc (n_synthesisChunks (p_stats session))\<rparr>,
                                 p_lastActivity := now\<rparr>;
              pl1 = pl\<lparr>activeSessions := map_set (activeSessions pl) userId session1\<rparr>
          in (case findPartnerSession pl1 userId of
                None \<Rightarrow> (pl1, [])
              | Some partner \<Rightarrow>
                  (case p_socket (snd partner) of
                     None \<Rightarrow> (pl1, [])
                   | Some s \<Rightarrow>
                       (pl1, [(s, SynthesizedAudio (k_audioData chunk) (k_text chunk) (k_isFinal chunk)
                                    (p_userLanguage session1) (p_userLanguage (snd partner)))]))))"

text \<open>
  \<^verbatim>\<open>startTranslationSession\<close>; whether the transcription and the synthesis stream
  started are inputs. On failure the session is stopped again.
  \<^verbatim>\<open>stopTranslationSession\<close> here removes the orchestrator's own entries.
\<close>

definition stopTranslationSession :: "pipeline \<Rightarrow> string \<Rightarrow> pipeline" where
  "stopTranslationSession pl userId =
     (case map_get (activeSessions pl) userId of
        None \<Rightarrow> pl
      | Some session \<Rightarrow>
          pl\<lparr>activeSessions := map_delete (activeSessions pl) userId,
             emotionalProfiles := map_delete (emotionalProfiles pl) userId\<rparr>)"

definition startTranslationSession :: "pipeline \<Rightarrow> string \<Rightarrow> string \<Rightarrow> string \<Rightarrow> string \<Rightarrow> string
    \<Rightarrow> socket option \<Rightarrow> string option \<Rightarrow> int \<Rightarrow> bool \<Rightarrow> bool \<Rightarrow> pipeline \<times> bool" where
  "startTranslationSession pl sessionId userId userLanguage partnerLanguage partnerVoiceId sock role now
       transcriptionStarted synthesisStarted =
     (let inferredRole = (case role of
                            Some r \<Rightarrow> if r \<noteq> [] then r
                                      else if userLanguage = ''tr'' then ''doctor'' else ''patient''
                          | None \<Rightarrow> if userLanguage = ''tr'' then ''doctor'' else ''patient'');
          sessionInfo = \<lparr>p_sessionId = sessionId, p_userId = userId, p_userLanguage = userLanguage,
                         p_partnerLanguage = partnerLanguage, p_partnerVoiceId = partnerVoiceId,
                         p_socket = sock, p_role = inferredRole, p_isActive = True,
                         p_startTime = now, p_lastActivity = now,
                         p_stats = \<lparr>n_audioChunks = 0, n_partialResults = 0, n_finalResults = 0,
                                    n_translations = 0, n_synthesisChunks = 0\<rparr>,
                         p_audioBuffer = None, p_lastProcessedNormalized = None,
                         p_lastProcessedAt = None\<rparr>;
          pl1 = pl\<lparr>activeSessions := map_set (activeSessions pl) userId sessionInfo\<rparr>
      in if transcriptionStarted \<and> synthesisStarted then (pl1, True)
         else (stopTranslationSession pl1 userId, False))"

text \<open>
  \<^verbatim>\<open>processAudioData\<close>, which the \<^verbatim>\<open>streaming-audio\<close> handler of index.js calls with
  the socket id and the frame; the handler itself only logs.
\<close>

definition processAudioData :: "pipeline \<Rightarrow> string \<Rightarrow> string \<Rightarrow> int \<Rightarrow> pipeline \<times> bool \<times> asrOut list" where
  "processAudioData pl userId audioData now =
     (case map_get (activeSessions pl) userId of
        None \<Rightarrow> (pl, False, [])
      | Some session \<Rightarrow>
          if \<not> p_isActive session then (pl, False, [])
          else
            (case sendAudioData (asr pl) userId audioData now of
               (t, sent, outs) \<Rightarrow>
                 if \<not> sent then (pl\<lparr>asr := t\<rparr>, False, outs)
                 else
                   let session1 = session\<lparr>p_stats := (p_stats session)\<lparr>n_audioChunks :=
                                            Suc (n_audioChunks (p_stats session))\<rparr>,
                                          p_lastActivity := now\<rparr>;
                       pl1 = pl\<lparr>asr := t,
                                activeSessions := map_set (activeSessions pl) userId session1\<rparr>;
                       pl2 = (case findPartnerSession pl1 userId of
                                None \<Rightarrow> pl1
                              | Some partner \<Rightarrow>
                                  pl1\<lparr>activeSessions := map_set (activeSessions pl1) (fst partner)
                                        ((snd partner)\<lparr>p_lastActivity := now\<rparr>)\<rparr>);
                       buf = (case p_audioBuffer session1 of None \<Rightarrow> [] | Some b \<Rightarrow> b)
                               @ [(audioData, now)];
                       session2 = session1\<lparr>p_audioBuffer :=
                                    Some (filter (\<lambda>sample. now - snd sample < 5000) buf)\<rparr>
                   in (pl2\<lparr>activeSessions := map_set (activeSessions pl2) userId session2\<rparr>,
                       True, outs)))"

definition onStreamingAudio :: "pipeline \<Rightarrow> socket \<Rightarrow> string \<Rightarrow> int \<Rightarrow> pipeline \<times> bool \<times> asrOut list" where
  "onStreamingAudio pl sock audioData now = processAudioData pl (sock_id sock) audioData now"







text \<open>
  The pipeline after index.js has started the sessions of a doctor (socket d1, tr) and a
  patient (socket p2, en) of session S3, each with an open streaming connection to the
  recognizer; a translation provider that answers every request with "tesekkurler".
\<close>

definition streamingAsr :: transcriber where
  "streamingAsr =
     \<lparr>t_activeConnections =
        [(''d1'', \<lparr>cn_isConnected = True, cn_restMode = False, cn_language = ''tr'',
                   cn_audioBuffer = [], cn_ws = Some WsOpen, cn_lastActivity = 100\<rparr>),
         (''p2'', \<lparr>cn_isConnected = True, cn_restMode = False, cn_language = ''en'',
                   cn_audioBuffer = [], cn_ws = Some WsOpen, cn_lastActivity = 100\<rparr>)],
      t_google = [], t_assembly = [], t_whisper = []\<rparr>"

definition pairPipeline :: pipeline where
  "pairPipeline =
     fst (startTranslationSession
            (fst (startTranslationSession
                    \<lparr>activeSessions = [], emotionalProfiles = [], asr = streamingAsr\<rparr>
                    ''S3'' ''d1'' ''tr'' ''en'' ''v2'' (Some (Socket ''d1'')) (Some ''doctor'') 100 True True))
            ''S3'' ''p2'' ''en'' ''tr'' ''v3'' (Some (Socket ''p2'')) (Some ''patient'') 100 True True)"



text \<open>Every session entry holds the socket whose id is the entry's key, as index.js starts them.\<close>

definition socketsMatchKeys :: "pipeline \<Rightarrow> bool" where
  "socketsMatchKeys pl = (\<forall>e\<in>set (activeSessions pl). p_socket (snd e) = Some (Socket (fst e)))"





section \<open>Properties\<close>

subsection \<open>Session registry\<close>

lemma findIndex_None: "findIndex P xs = None \<longleftrightarrow> (\<forall>x\<in>set xs. \<not> P x)"
  by (induction xs) (auto split: option.splits)

lemma findIndex_first:
  "(\<forall>x\<in>set pre. \<not> P x) \<Longrightarrow> P w \<Longrightarrow> findIndex P (pre @ w # post) = Some (length pre)"
  by (induction pre) auto

lemma splice1_middle: "splice1 (length pre) (pre @ w # post) = pre @ post"
  by (simp add: splice1_def)

lemma map_get_set_same: "map_get (map_set m k v) k = Some v"
  by (induction m) (auto simp: map_get_def)

lemma reconnect_frame:
  assumes "reconnect st socketId d = (st1, None)"
  shows "waitingDoctors st1 = waitingDoctors st \<and> waitingPatients st1 = waitingPatients st
         \<and> nextRef st1 = nextRef st \<and> sessions st1 = sessions st
         \<and> (\<forall>r. u_language (heap st1 r) = u_language (heap st r))"
  using assms
  by (auto simp: reconnect_def Let_def split: option.splits if_splits)

lemma matchOrWait_match_doctor:
  assumes "u_role (heap st u) = ''doctor''"
    and "waitingPatients st = pre @ w # post"
    and "\<forall>x\<in>set pre. u_language (heap st x) = u_language (heap st u)"
    and "u_language (heap st w) \<noteq> u_language (heap st u)"
  shows "matchOrWait st u sid now =
          (fst (createSession (st\<lparr>waitingPatients := pre @ post\<rparr>) u w sid now),
           Inr (snd (createSession (st\<lparr>waitingPatients := pre @ post\<rparr>) u w sid now)))"
  using assms
  by (simp add: matchOrWait_def findIndex_first splice1_middle Let_def split: prod.splits)

lemma matchOrWait_match_patient:
  assumes "u_role (heap st u) = ''patient''"
    and "waitingDoctors st = pre @ w # post"
    and "\<forall>x\<in>set pre. u_language (heap st x) = u_language (heap st u)"
    and "u_language (heap st w) \<noteq> u_language (heap st u)"
  shows "matchOrWait st u sid now =
          (fst (createSession (st\<lparr>waitingDoctors := pre @ post\<rparr>) w u sid now),
           Inr (snd (createSession (st\<lparr>waitingDoctors := pre @ post\<rparr>) w u sid now)))"
  using assms
  by (simp add: matchOrWait_def findIndex_first splice1_middle Let_def split: prod.splits)

lemma matchOrWait_wait:
  assumes "u_role (heap st u) = ''doctor'' \<or> u_role (heap st u) = ''patient''"
    and "\<forall>x\<in>set (oppositeList st (u_role (heap st u))). u_language (heap st x) = u_language (heap st u)"
  shows "matchOrWait st u sid now =
          (if u_role (heap st u) = ''doctor''
           then (fst (createPendingSession (st\<lparr>waitingDoctors := waitingDoctors st @ [u]\<rparr>) u sid now),
                 Inr (snd (createPendingSession (st\<lparr>waitingDoctors := waitingDoctors st @ [u]\<rparr>) u sid now)))
           else (fst (createPendingSession (st\<lparr>waitingPatients := waitingPatients st @ [u]\<rparr>) u sid now),
                 Inr (snd (createPendingSession (st\<lparr>waitingPatients := waitingPatients st @ [u]\<rparr>) u sid now))))"
proof -
  have "findIndex (\<lambda>p. u_language (heap st p) \<noteq> u_language (heap st u))
          (oppositeList st (u_role (heap st u))) = None"
    using assms(2) by (simp add: findIndex_None)
  then show ?thesis
    using assms(1)
    by (auto simp: matchOrWait_def oppositeList_def Let_def split: prod.splits)
qed

text \<open>
  C2. A join that is not a reconnection, with role doctor or patient: when the
  opposite-role waiting list has an entry whose language differs from the joiner's, the
  first such entry (every entry before it has the joiner's language) is taken out of the
  list, and an active session of the joiner and that entry is created, stored and
  returned; when every opposite-role waiter has the joiner's language, the joiner is
  appended to its own-role list and a pending session holding only the joiner is created,
  stored and returned. The new user object is the one allocated at \<open>nextRef\<close>.
\<close>

theorem addUser_pairs_first_different_language:
  assumes role: "d_role d = ''doctor'' \<or> d_role d = ''patient''"
    and fresh: "\<forall>w\<in>set (waitingDoctors st) \<union> set (waitingPatients st). w < nextRef st"
    and norec: "snd (reconnect st socketId d) = None"
  shows "(\<forall>pre w post.
            oppositeList st (d_role d) = pre @ w # post
            \<and> (\<forall>x\<in>set pre. u_language (heap st x) = d_language d)
            \<and> u_language (heap st w) \<noteq> d_language d \<longrightarrow>
            (case addUser st socketId d sid now of
               (st', r) \<Rightarrow>
                 oppositeList st' (d_role d) = pre @ post
                 \<and> ownList st' (d_role d) = ownList st (d_role d)
                 \<and> (\<exists>sess. r = Inr sess \<and> s_status sess = Active
                       \<and> s_doctor sess = Some (if d_role d = ''doctor'' then nextRef st else w)
                       \<and> s_patient sess = Some (if d_role d = ''doctor'' then w else nextRef st)
                       \<and> map_get (sessions st') sid = Some sess)))
       \<and> ((\<forall>w\<in>set (oppositeList st (d_role d)). u_language (heap st w) = d_language d) \<longrightarrow>
            (case addUser st socketId d sid now of
               (st', r) \<Rightarrow>
                 ownList st' (d_role d) = ownList st (d_role d) @ [nextRef st]
                 \<and> oppositeList st' (d_role d) = oppositeList st (d_role d)
                 \<and> (\<exists>sess. r = Inr sess \<and> s_status sess = Pending
                       \<and> s_doctor sess = (if d_role d = ''doctor'' then Some (nextRef st) else None)
                       \<and> s_patient sess = (if d_role d = ''doctor'' then None else Some (nextRef st))
                       \<and> map_get (sessions st') sid = Some sess)))"
proof -
  obtain st1 where rc: "reconnect st socketId d = (st1, None)"
    using norec by (cases "reconnect st socketId d") auto
  note fr = reconnect_frame [OF rc]
  let ?u = "nextRef st"
  define usr where "usr = \<lparr>u_socketId = socketId, u_role = d_role d, u_language = d_language d,
                     u_voiceId = d_voiceId d, u_socket = d_socket d, u_joinedAt = now,
                     u_sessionId = None\<rparr>"
  define st2 where "st2 = st1\<lparr>heap := (heap st1)(?u := usr), nextRef := Suc ?u,
                        users := map_set (users st1) socketId ?u\<rparr>"
  have au: "addUser st socketId d sid now =
      (case matchOrWait st2 ?u sid now of
                (st3, Inr sess) \<Rightarrow>
                  (st3\<lparr>heap := (heap st3)(?u := (heap st3 ?u)\<lparr>u_sessionId := Some (s_id sess)\<rparr>)\<rparr>,
                   Inr sess)
              | (st3, Inl err) \<Rightarrow> (st3, Inl err))"
    by (simp add: addUser_def rc Let_def st2_def usr_def fr)
  have hu: "heap st2 ?u = usr" by (simp add: st2_def)
  have lang: "\<And>x. x \<in> set (waitingDoctors st) \<union> set (waitingPatients st) \<Longrightarrow>
     u_language (heap st2 x) = u_language (heap st x)"
    using fresh fr by (auto simp: st2_def)
  have lists: "waitingDoctors st2 = waitingDoctors st" "waitingPatients st2 = waitingPatients st"
    using fr by (simp_all add: st2_def)
  have ru: "u_role (heap st2 ?u) = d_role d" "u_language (heap st2 ?u) = d_language d"
    by (simp_all add: hu usr_def)
  show ?thesis
  proof (intro conjI allI impI)
    fix pre w post
    assume a: "oppositeList st (d_role d) = pre @ w # post
            \<and> (\<forall>x\<in>set pre. u_language (heap st x) = d_language d)
            \<and> u_language (heap st w) \<noteq> d_language d"
    show "case addUser st socketId d sid now of
               (st', r) \<Rightarrow>
                 oppositeList st' (d_role d) = pre @ post
                 \<and> ownList st' (d_role d) = ownList st (d_role d)
                 \<and> (\<exists>sess. r = Inr sess \<and> s_status sess = Active
                       \<and> s_doctor sess = Some (if d_role d = ''doctor'' then nextRef st else w)
                       \<and> s_patient sess = Some (if d_role d = ''doctor'' then w else nextRef st)
                       \<and> map_get (sessions st') sid = Some sess)"
    proof (cases "d_role d = ''doctor''")
      case True
      have wp: "waitingPatients st2 = pre @ w # post"
        using a True lists by (simp add: oppositeList_def)
      have "\<forall>x\<in>set pre. u_language (heap st2 x) = u_language (heap st2 ?u)"
        using a wp lists lang ru by auto
      moreover have "u_language (heap st2 w) \<noteq> u_language (heap st2 ?u)"
        using a wp lists lang ru by auto
      ultimately have "matchOrWait st2 ?u sid now =
          (fst (createSession (st2\<lparr>waitingPatients := pre @ post\<rparr>) ?u w sid now),
           Inr (snd (createSession (st2\<lparr>waitingPatients := pre @ post\<rparr>) ?u w sid now)))"
        using matchOrWait_match_doctor [of st2 ?u pre w post sid now] ru True wp by simp
      then show ?thesis
        using True lists
        by (simp add: au createSession_def Let_def oppositeList_def ownList_def map_get_set_same)
    next
      case False
      then have pat: "d_role d = ''patient''" using role by simp
      have wp: "waitingDoctors st2 = pre @ w # post"
        using a pat lists by (simp add: oppositeList_def)
      have "\<forall>x\<in>set pre. u_language (heap st2 x) = u_language (heap st2 ?u)"
        using a wp lists lang ru by auto
      moreover have "u_language (heap st2 w) \<noteq> u_language (heap st2 ?u)"
        using a wp lists lang ru by auto
      ultimately have "matchOrWait st2 ?u sid now =
          (fst (createSession (st2\<lparr>waitingDoctors := pre @ post\<rparr>) w ?u sid now),
           Inr (snd (createSession (st2\<lparr>waitingDoctors := pre @ post\<rparr>) w ?u sid now)))"
        using matchOrWait_match_patient [of st2 ?u pre w post sid now] ru pat wp by simp
      then show ?thesis
        using pat lists
        by (simp add: au createSession_def Let_def oppositeList_def ownList_def map_get_set_same)
    qed
  next
    assume a: "\<forall>w\<in>set (oppositeList st (d_role d)). u_language (heap st w) = d_language d"
    have r2: "u_role (heap st2 ?u) = ''doctor'' \<or> u_role (heap st2 ?u) = ''patient''"
      using role ru by simp
    have "oppositeList st2 (d_role d) = oppositeList st (d_role d)"
      using lists by (simp add: oppositeList_def)
    then have "\<forall>x\<in>set (oppositeList st2 (u_role (heap st2 ?u))). u_language (heap st2 x) = u_language (heap st2 ?u)"
      using a lang ru by (auto simp: oppositeList_def split: if_splits)
    note mw = matchOrWait_wait [OF r2 this, of sid now]
    show "case addUser st socketId d sid now of
               (st', r) \<Rightarrow>
                 ownList st' (d_role d) = ownList st (d_role d) @ [nextRef st]
                 \<and> oppositeList st' (d_role d) = oppositeList st (d_role d)
                 \<and> (\<exists>sess. r = Inr sess \<and> s_status sess = Pending
                       \<and> s_doctor sess = (if d_role d = ''doctor'' then Some (nextRef st) else None)
                       \<and> s_patient sess = (if d_role d = ''doctor'' then None else Some (nextRef st))
                       \<and> map_get (sessions st') sid = Some sess)"
      using role lists ru
      by (auto simp: au mw createPendingSession_def Let_def oppositeList_def ownList_def map_get_set_same)
  qed
qed

lemma twoPatientsWaiting_eval:
  "waitingPatients twoPatientsWaiting = [0, Suc 0] \<and> waitingDoctors twoPatientsWaiting = []
   \<and> nextRef twoPatientsWaiting = 2
   \<and> u_language (heap twoPatientsWaiting 0) = ''tr''
   \<and> u_language (heap twoPatientsWaiting (Suc 0)) = ''en''
   \<and> users twoPatientsWaiting = [(''p1'', 0), (''p2'', Suc 0)]
   \<and> u_role (heap twoPatientsWaiting 0) = ''patient''
   \<and> u_role (heap twoPatientsWaiting (Suc 0)) = ''patient''"
  by (simp add: twoPatientsWaiting_def addUser_def reconnect_def existingUser_def emptyManager_def
      joinAs_def matchOrWait_def createPendingSession_def blankUser_def Let_def)

theorem addUser_pairs_first_different_language_witness:
  "(case addUser twoPatientsWaiting ''d1'' (joinAs ''doctor'' ''tr'' ''v3'' ''d1'') ''S3'' 30 of
      (st', r) \<Rightarrow>
        waitingPatients st' = [0] \<and> waitingDoctors st' = []
        \<and> (\<exists>sess. r = Inr sess \<and> s_status sess = Active \<and> s_doctor sess = Some 2
              \<and> s_patient sess = Some 1 \<and> map_get (sessions st') ''S3'' = Some sess))"
proof -
  let ?d = "joinAs ''doctor'' ''tr'' ''v3'' ''d1''"
  have role: "d_role ?d = ''doctor'' \<or> d_role ?d = ''patient''"
    by (simp add: joinAs_def)
  have fresh: "\<forall>w\<in>set (waitingDoctors twoPatientsWaiting) \<union> set (waitingPatients twoPatientsWaiting).
                 w < nextRef twoPatientsWaiting"
    by (simp add: twoPatientsWaiting_eval)
  have norec: "snd (reconnect twoPatientsWaiting ''d1'' ?d) = None"
    by (simp add: reconnect_def existingUser_def twoPatientsWaiting_eval joinAs_def)
  have opp: "oppositeList twoPatientsWaiting (d_role ?d) = [0] @ Suc 0 # []
            \<and> (\<forall>x\<in>set [0]. u_language (heap twoPatientsWaiting x) = d_language ?d)
            \<and> u_language (heap twoPatientsWaiting (Suc 0)) \<noteq> d_language ?d"
    by (simp add: oppositeList_def twoPatientsWaiting_eval joinAs_def)
  show ?thesis
    using addUser_pairs_first_different_language [OF role fresh norec, of "''S3''" 30,
        THEN conjunct1, rule_format, OF opp]
    by (simp add: oppositeList_def ownList_def joinAs_def twoPatientsWaiting_eval split: prod.splits)
qed

text \<open>
  C7. A doctor joins on socket s1 and waits; the same (role, language, voice id) joins
  again on socket s2. The pending session S1 is returned, and the \<^verbatim>\<open>users\<close> map then
  holds the same user object under both s1 and s2: the key deleted is the new socket id,
  not the old one.
\<close>

theorem reconnect_leaves_old_socket_key:
  "users (fst (addUser doctorWaiting ''s2'' (joinAs ''doctor'' ''tr'' ''v_tr'' ''s2'') ''S2'' 20))
     = [(''s1'', 0), (''s2'', 0)]
   \<and> (\<exists>sess. snd (addUser doctorWaiting ''s2'' (joinAs ''doctor'' ''tr'' ''v_tr'' ''s2'') ''S2'' 20) = Inr sess
         \<and> s_id sess = ''S1'')"
  by (simp add: doctorWaiting_def addUser_def reconnect_def existingUser_def emptyManager_def
      joinAs_def matchOrWait_def createPendingSession_def blankUser_def Let_def map_get_def
      map_delete_def relinkSlot_def)

text \<open>
  C10. A user of an active session whose partner has a socket disconnects: the partner's
  socket is sent \<^verbatim>\<open>partner-disconnected\<close> by the disconnect handler, then again by
  \<^verbatim>\<open>removeUser\<close>, then \<^verbatim>\<open>waiting-for-partner\<close>; nothing else is sent. So the
  partner receives \<^verbatim>\<open>partner-disconnected\<close> exactly twice.
\<close>

theorem partner_notified_twice:
  assumes usr: "map_get (users st) socketId = Some u"
    and sid: "u_sessionId (heap st u) = Some sid" "sid \<noteq> []"
    and sess: "map_get (sessions st) sid = Some sess" "s_status sess = Active"
    and other: "otherUserOf st u sess = Some ou"
    and sock: "u_socket (heap st ou) = Some ps"
  shows "fst (snd (onDisconnect st socketId reason now)) =
           [(ps, PartnerDisconnected (u_role (heap st u) @ '' disconnected'') (Some reason)),
            (ps, PartnerDisconnected (''The '' @ u_role (heap st u) @ '' has disconnected'') None),
            (ps, WaitingForPartner (if u_role (heap st ou) = ''doctor'' then ''patient'' else ''doctor''))]
         \<and> length (filter (\<lambda>e. fst e = ps \<and> isPartnerDisconnected (snd e))
                    (fst (snd (onDisconnect st socketId reason now)))) = 2"
  using assms
  by (simp add: onDisconnect_def disconnectNotice_def getUser_def getPartnerInfo_def getSession_def
      removeUser_def endActive_def requeue_def otherUserOf_def Let_def split: prod.splits)

lemma activePair_eval:
  "map_get (users activePair) ''d1'' = Some 2
   \<and> u_sessionId (heap activePair 2) = Some ''S3''
   \<and> map_get (sessions activePair) ''S3'' = Some activePairSession
   \<and> u_role (heap activePair 2) = ''doctor''
   \<and> u_role (heap activePair (Suc 0)) = ''patient''
   \<and> u_socket (heap activePair (Suc 0)) = Some (Socket ''p2'')"
  by (simp add: activePair_def activePairSession_def twoPatientsWaiting_def addUser_def reconnect_def
      existingUser_def emptyManager_def joinAs_def matchOrWait_def createPendingSession_def
      createSession_def blankUser_def Let_def map_get_def splice1_def)

theorem partner_notified_twice_witness:
  "fst (snd (onDisconnect activePair ''d1'' ''transport close'' 40)) =
     [(Socket ''p2'', PartnerDisconnected ''doctor disconnected'' (Some ''transport close'')),
      (Socket ''p2'', PartnerDisconnected ''The doctor has disconnected'' None),
      (Socket ''p2'', WaitingForPartner ''doctor'')]"
proof -
  have other: "otherUserOf activePair 2 activePairSession = Some (Suc 0)"
    by (simp add: otherUserOf_def activePair_eval activePairSession_def)
  have act: "s_status activePairSession = Active"
    by (simp add: activePairSession_def)
  have sidne: "''S3'' \<noteq> []" by simp
  show ?thesis
    using partner_notified_twice [of activePair "''d1''" 2 "''S3''" activePairSession "Suc 0"
        "Socket ''p2''" "''transport close''" 40]
      other act sidne
    by (simp add: activePair_eval)
qed

subsection \<open>Machine translation client\<close>

lemma trim_Nil: "trim [] = []"
  by (simp add: trim_def)

text \<open>
  C6, as stated, fails: against a provider that answers 503 the call issues one request,
  not two, and throws.
\<close>

theorem translate_retries_counterexample:
  "\<not> (length (fst (translate unavailable ''hello'' ''en'' ''tr'')) = 2)
   \<and> fst (translate unavailable ''hello'' ''en'' ''tr'')
       = [\<lparr>q_text = [''hello''], q_source_lang = Some ''EN'', q_target_lang = ''TR'', q_timeout = 10000\<rparr>]
   \<and> snd (translate unavailable ''hello'' ''en'' ''tr'') = Inl (ApiError 503 ''Unknown error'')"
  by (simp add: translate_def trim_def isSpace_def mapLanguageForDeepL_def unavailable_def Let_def)

text \<open>
  C6, amended. For text that is not empty after trimming, \<^verbatim>\<open>translate\<close> issues exactly
  one provider request, with a timeout of 10000 ms, whatever the outcome: status 456 is
  thrown as quota exceeded, status 403 as invalid key, every other failure status and a
  failure without response are thrown as errors, none of them after a second request.
  For text that is empty after trimming it issues no request and returns the empty
  translation.
\<close>

theorem translate_single_request:
  "(trim text \<noteq> [] \<longrightarrow>
      (\<exists>req. fst (translate post text src tgt) = [req] \<and> q_timeout req = 10000
         \<and> q_text req = [text]
         \<and> (\<forall>m. post req = FailedStatus 456 m \<longrightarrow> snd (translate post text src tgt) = Inl QuotaExceeded)
         \<and> (\<forall>m. post req = FailedStatus 403 m \<longrightarrow> snd (translate post text src tgt) = Inl ApiKeyInvalid)
         \<and> (\<forall>s m. post req = FailedStatus s m \<longrightarrow> (\<exists>e. snd (translate post text src tgt) = Inl e))
         \<and> (post req = FailedNoResponse \<longrightarrow> snd (translate post text src tgt) = Inl NetworkError)))
   \<and> (trim text = [] \<longrightarrow>
        translate post text src tgt
          = ([], Inr \<lparr>translatedText = [], detectedLanguage = src, t_confidence = 0\<rparr>))"
  by (auto simp: translate_def Let_def trim_Nil)

theorem translate_single_request_witness:
  "trim ''hello'' \<noteq> []
   \<and> (\<exists>req. fst (translate unavailable ''hello'' ''en'' ''tr'') = [req] \<and> q_timeout req = 10000
         \<and> (\<exists>e. snd (translate unavailable ''hello'' ''en'' ''tr'') = Inl e))
   \<and> trim ''  '' = []
   \<and> translate unavailable ''  '' ''en'' ''tr''
        = ([], Inr \<lparr>translatedText = [], detectedLanguage = ''en'', t_confidence = 0\<rparr>)"
proof -
  have a: "trim ''hello'' \<noteq> []" by (simp add: trim_def isSpace_def)
  have b: "trim ''  '' = []" by (simp add: trim_def isSpace_def)
  from translate_single_request [of "''hello''" unavailable "''en''" "''tr''"] a
  obtain req where r: "fst (translate unavailable ''hello'' ''en'' ''tr'') = [req]" "q_timeout req = 10000"
    "\<forall>s m. unavailable req = FailedStatus s m \<longrightarrow> (\<exists>e. snd (translate unavailable ''hello'' ''en'' ''tr'') = Inl e)"
    by blast
  from r(3) have "\<exists>e. snd (translate unavailable ''hello'' ''en'' ''tr'') = Inl e"
    by (simp add: unavailable_def)
  with r a b translate_single_request [of "''  ''" unavailable "''en''" "''tr''"]
  show ?thesis by blast
qed

subsection \<open>Utterance gate\<close>

lemma splitWs_nonempty: "splitWs acc s \<noteq> []"
  by (induction acc s rule: splitWs.induct) auto

lemma wordsOf_pos: "1 \<le> length (wordsOf text)"
  using splitWs_nonempty [of "[]" "trim text"]
  by (cases "splitWs [] (trim text)") (auto simp: wordsOf_def)

lemma fresh_avg:
  "avgSentenceLength (freshConversation u l r t) = (if r = ''doctor'' then 12 else 8)"
  by (simp add: freshConversation_def initializeProfessionalConversation_def map_get_set_same)















lemma update_avg:
  "avgSentenceLength (updateProfessionalLearning c t conf a now) =
     avgSentenceLength c * (85 / 100) + real (length (wordsOf t)) * (15 / 100)"
  by (simp add: updateProfessionalLearning_def Let_def)

lemma learn_lower: "1 \<le> avgSentenceLength c \<Longrightarrow> 1 \<le> avgSentenceLength (learn c fs)"
proof (induction fs arbitrary: c)
  case Nil
  then show ?case by (simp add: learn_def)
next
  case (Cons f fs)
  let ?c' = "updateProfessionalLearning c (fst f) (fst (snd f)) (fst (snd (snd f))) (snd (snd (snd f)))"
  have "1 \<le> real (length (wordsOf (fst f)))"
    using wordsOf_pos [of "fst f"] by simp
  with Cons.prems have "1 \<le> avgSentenceLength ?c'"
    by (simp add: update_avg)
  from Cons.IH [OF this] show ?case
    by (simp add: learn_def)
qed

lemma learn_upper:
  "avgSentenceLength c \<le> 200 \<Longrightarrow> \<forall>f\<in>set fs. length (wordsOf (fst f)) \<le> 200 \<Longrightarrow>
   avgSentenceLength (learn c fs) \<le> 200"
proof (induction fs arbitrary: c)
  case Nil
  then show ?case by (simp add: learn_def)
next
  case (Cons f fs)
  let ?c' = "updateProfessionalLearning c (fst f) (fst (snd f)) (fst (snd (snd f))) (snd (snd (snd f)))"
  have "real (length (wordsOf (fst f))) \<le> 200"
    using Cons.prems(2) by simp
  with Cons.prems(1) have "avgSentenceLength ?c' \<le> 200"
    by (simp add: update_avg)
  from Cons.IH [OF this] Cons.prems(2) show ?case
    by (simp add: learn_def)
qed

lemma splitWs_count: "length (splitWs acc (concat (replicate n '' a''))) = Suc n"
proof (induction n arbitrary: acc)
  case 0
  then show ?case by simp
next
  case (Suc n)
  have "splitWs acc (concat (replicate (Suc n) '' a''))
          = rev acc # splitWs ''a'' (concat (replicate n '' a''))"
    by (simp add: isSpace_def)
  then show ?case by (simp add: Suc.IH)
qed

lemma trim_clean:
  assumes "s \<noteq> []" "\<not> isSpace (hd s)" "\<not> isSpace (last s)"
  shows "trim s = s"
proof -
  have 1: "dropWhile isSpace s = s"
    using assms(1,2) by (cases s) auto
  have "rev s \<noteq> []" "\<not> isSpace (hd (rev s))"
    using assms by (simp_all add: hd_rev)
  then have 2: "dropWhile isSpace (rev s) = rev s"
    by (cases "rev s") auto
  show ?thesis by (simp add: trim_def 1 2)
qed

lemma longUtterance_last: "last (CHR ''a'' # concat (replicate n '' a'')) = CHR ''a''"
  by (induction n) auto

lemma longUtterance_words: "length (wordsOf longUtterance) = 2000"
proof -
  have "trim longUtterance = longUtterance"
    unfolding longUtterance_def
    by (rule trim_clean) (simp_all add: isSpace_def longUtterance_last del: last.simps)
  then have "wordsOf longUtterance = splitWs ''a'' (concat (replicate 1999 '' a''))"
    by (simp add: wordsOf_def) (simp add: longUtterance_def isSpace_def)
  then show ?thesis
    by (simp add: splitWs_count)
qed

lemma help_words: "length (wordsOf ''help'') = 1"
  by (simp add: wordsOf_def trim_def isSpace_def)

text \<open>
  C8, as stated, fails twice. A new doctor's average is 12; after the one-word utterance
  "help" it is 10.35, a change of 1.65, more than 0.15 * 1. After one utterance of 2000
  words it is 310.2, above 200: nothing in the update clamps the average.
\<close>

theorem avg_sentence_length_counterexample:
  "\<not> (\<bar>avgSentenceLength (updateProfessionalLearning (freshConversation ''d1'' ''tr'' ''doctor'' 1000)
           ''help'' (6 / 10) nurseAnalysis 2000)
        - avgSentenceLength (freshConversation ''d1'' ''tr'' ''doctor'' 1000)\<bar>
        \<le> (15 / 100) * real (length (wordsOf ''help'')))
   \<and> \<not> (avgSentenceLength (updateProfessionalLearning (freshConversation ''d1'' ''tr'' ''doctor'' 1000)
           longUtterance (9 / 10) nurseAnalysis 2000) \<le> 200)"
  by (simp add: update_avg fresh_avg help_words longUtterance_words)

text \<open>
  C8, amended. Over every sequence of fired utterances of a conversation, the running
  average sentence length stays at least 1, and stays at most 200 as long as no fired
  utterance has more than 200 words. One firing with an utterance of w words sets the
  average to 0.85 * old + 0.15 * w: it raises the average by at most 0.15 * w and lowers
  it by at most 0.15 * old.
\<close>

theorem avg_sentence_length_bounds:
  "1 \<le> avgSentenceLength (learn (freshConversation u l r t0) fs)
   \<and> ((\<forall>f\<in>set fs. length (wordsOf (fst f)) \<le> 200) \<longrightarrow>
        avgSentenceLength (learn (freshConversation u l r t0) fs) \<le> 200)
   \<and> avgSentenceLength (updateProfessionalLearning c t conf a now)
        = (85 / 100) * avgSentenceLength c + (15 / 100) * real (length (wordsOf t))
   \<and> (0 \<le> avgSentenceLength c \<longrightarrow>
        avgSentenceLength (updateProfessionalLearning c t conf a now) - avgSentenceLength c
          \<le> (15 / 100) * real (length (wordsOf t))
        \<and> avgSentenceLength c - avgSentenceLength (updateProfessionalLearning c t conf a now)
          \<le> (15 / 100) * avgSentenceLength c)"
proof -
  have lo: "1 \<le> avgSentenceLength (freshConversation u l r t0)"
    and hi: "avgSentenceLength (freshConversation u l r t0) \<le> 200"
    by (simp_all add: fresh_avg)
  show ?thesis
    using learn_lower [OF lo, of fs] learn_upper [OF hi, of fs]
    by (auto simp: update_avg)
qed

theorem avg_sentence_length_bounds_witness:
  "length (wordsOf ''help'') \<le> 200
   \<and> avgSentenceLength (learn (freshConversation ''d1'' ''tr'' ''doctor'' 1000)
        [(''help'', 6 / 10, nurseAnalysis, 2000)]) = 1035 / 100
   \<and> 1 \<le> avgSentenceLength (learn (freshConversation ''d1'' ''tr'' ''doctor'' 1000)
        [(''help'', 6 / 10, nurseAnalysis, 2000)])
   \<and> avgSentenceLength (learn (freshConversation ''d1'' ''tr'' ''doctor'' 1000)
        [(''help'', 6 / 10, nurseAnalysis, 2000)]) \<le> 200"
proof -
  have w: "\<forall>f\<in>set [(''help'', 6 / 10 :: real, nurseAnalysis, 2000 :: int)]. length (wordsOf (fst f)) \<le> 200"
    by (simp add: help_words)
  have v: "avgSentenceLength (learn (freshConversation ''d1'' ''tr'' ''doctor'' 1000)
        [(''help'', 6 / 10, nurseAnalysis, 2000)]) = 1035 / 100"
    by (simp add: learn_def update_avg fresh_avg help_words)
  show ?thesis
    using avg_sentence_length_bounds [of "''d1''" "''tr''" "''doctor''" 1000
        "[(''help'', 6 / 10, nurseAnalysis, 2000)]"] w v
    by simp
qed

subsection \<open>Speech synthesis cache\<close>

lemma key_calm: "cacheKeyOf ''v1'' ''merhaba'' ''tr'' (Some calm) = ''v1-merhaba-tr-calm-0.3''"
  by (simp add: cacheKeyOf_def emotionKeyOf_def calm_def toFixed1_def trim_def isSpace_def
      digitChar_def)

lemma key_excited: "cacheKeyOf ''v1'' ''merhaba'' ''tr'' (Some excited) = ''v1-merhaba-tr-excited-0.8''"
  by (simp add: cacheKeyOf_def emotionKeyOf_def excited_def toFixed1_def trim_def isSpace_def
      digitChar_def)

lemma base_merhaba: "baseTextKeyOf ''v1'' ''merhaba'' ''tr'' = ''v1-merhaba-tr''"
  by (simp add: baseTextKeyOf_def trim_def isSpace_def)

lemma calm_settings: "style (the (e_voiceSettings calm)) = 2 / 10 \<and> e_voiceSettings calm \<noteq> None"
  by (simp add: calm_def)

lemma excited_settings: "style (the (e_voiceSettings excited)) = 8 / 10 \<and> e_voiceSettings excited \<noteq> None"
  by (simp add: excited_def)

lemma styledVoice_emotional:
  "e_voiceSettings e \<noteq> None \<Longrightarrow>
   synthesizeWithRetry styledVoice v t l (Some e) 3 =
     Inr (Some (if style (the (e_voiceSettings e)) > 1 / 2 then ''RVhDSVRFRA=='' else ''Q0FMTQ==''))"
  by (auto simp: synthesizeWithRetry_def styledVoice_def numeral_3_eq_3)

lemma cacheAfterCalm_eval:
  "cacheAfterCalm = [(''v1-merhaba-tr-calm-0.3'', \<lparr>ce_result = Some ''Q0FMTQ=='', ce_timestamp = 0\<rparr>)]"
  by (simp add: cacheAfterCalm_def synthesizeChunk_def key_calm base_merhaba map_get_def
      styledVoice_emotional calm_settings cleanCache_def Let_def)

lemma cacheAfterExcited_eval:
  "synthesizeChunk cacheAfterCalm styledVoice ''v1'' ''merhaba'' ''tr'' (Some excited) 3500 3900 =
     ([(''v1-merhaba-tr-calm-0.3'', \<lparr>ce_result = Some ''Q0FMTQ=='', ce_timestamp = 0\<rparr>),
       (''v1-merhaba-tr-excited-0.8'', \<lparr>ce_result = Some ''RVhDSVRFRA=='', ce_timestamp = 3500\<rparr>)],
      Inr (Some ''RVhDSVRFRA==''), Provider)"
  by (simp add: cacheAfterCalm_eval synthesizeChunk_def key_excited base_merhaba map_get_def
      styledVoice_emotional excited_settings cleanCache_def Let_def)

text \<open>
  C5, as stated, fails. Voice v1, text "merhaba", language tr: a calm request at t = 0
  is synthesized; an excited one at t = 3500 misses both lookups and is synthesized with
  other audio; a calm one at t = 4000, half a second after it, is served the exact-key
  entry of t = 0, not the audio of the call before it.
\<close>

theorem synthesize_within_3s_counterexample:
  "fst (snd (synthesizeChunk cacheAfterCalm styledVoice ''v1'' ''merhaba'' ''tr'' (Some excited) 3500 3900))
     = Inr (Some ''RVhDSVRFRA=='')
   \<and> snd (snd (synthesizeChunk cacheAfterCalm styledVoice ''v1'' ''merhaba'' ''tr'' (Some excited) 3500 3900))
     = Provider
   \<and> (4000 :: int) - 3500 < 3000
   \<and> fst (snd (synthesizeChunk cacheAfterExcited styledVoice ''v1'' ''merhaba'' ''tr'' (Some calm) 4000 4400))
     = Inr (Some ''Q0FMTQ=='')
   \<and> fst (snd (synthesizeChunk cacheAfterExcited styledVoice ''v1'' ''merhaba'' ''tr'' (Some calm) 4000 4400))
     \<noteq> fst (snd (synthesizeChunk cacheAfterCalm styledVoice ''v1'' ''merhaba'' ''tr'' (Some excited) 3500 3900))"
  by (simp add: cacheAfterExcited_def cacheAfterExcited_eval)
     (simp add: synthesizeChunk_def key_calm base_merhaba map_get_def)


lemma map_get_filter_keep:
  "map_get m k = Some v \<Longrightarrow> P (k, v) \<Longrightarrow> map_get (filter P m) k = Some v"
  by (induction m) (auto simp: map_get_def split: if_splits)

lemma map_get_mem: "map_get m k = Some v \<Longrightarrow> (k, v) \<in> set m"
  by (simp add: map_get_def map_of_SomeD)

lemma set_map_set: "x \<in> set (map_set m k v) \<Longrightarrow> x = (k, v) \<or> x \<in> set m"
  by (induction m) (auto split: if_splits)

lemma mem_map_set: "(k, v) \<in> set (map_set m k v)"
  by (induction m) auto

lemma synthesizeChunk_miss:
  assumes "synthesizeChunk c post v t l e now cn = (c1, Inr r, Provider)"
  shows "c1 = cleanCache (map_set c (cacheKeyOf v t l e) \<lparr>ce_result = r, ce_timestamp = now\<rparr>) cn
         \<and> (\<forall>x\<in>set c. \<not> (prefix (baseTextKeyOf v t l) (fst x) \<and> now - ce_timestamp (snd x) < 3000))"
  using assms
  by (auto simp: synthesizeChunk_def Let_def find_None_iff split: option.splits if_splits sum.splits)

lemma key_has_base: "prefix (baseTextKeyOf v t l) (cacheKeyOf v t l e)"
  by (simp add: baseTextKeyOf_def cacheKeyOf_def)

lemma second_call_served:
  assumes first: "synthesizeChunk c post v t1 l e1 now1 clean1 = (c1, Inr r, Provider)"
    and survive: "clean1 - now1 \<le> 10000"
    and same: "trim t2 = trim t1"
    and order: "now1 \<le> now2"
    and near: "now2 - now1 < 3000"
    and exact: "emotionKeyOf e2 = emotionKeyOf e1
                \<or> (\<forall>x\<in>set c. fst x = cacheKeyOf v t2 l e2 \<longrightarrow> \<not> (now2 - ce_timestamp (snd x) < 5000))"
  shows "\<exists>how. synthesizeChunk c1 post' v t2 l e2 now2 clean2 = (c1, Inr r, how) \<and> how \<noteq> Provider"
proof -
  let ?K1 = "cacheKeyOf v t1 l e1" and ?K2 = "cacheKeyOf v t2 l e2"
  let ?B = "baseTextKeyOf v t2 l"
  let ?E = "\<lparr>ce_result = r, ce_timestamp = now1\<rparr>"
  have base: "baseTextKeyOf v t2 l = baseTextKeyOf v t1 l"
    by (simp add: baseTextKeyOf_def same)
  from synthesizeChunk_miss [OF first]
  have c1: "c1 = cleanCache (map_set c ?K1 ?E) clean1"
    and miss: "\<forall>x\<in>set c. \<not> (prefix ?B (fst x) \<and> now1 - ce_timestamp (snd x) < 3000)"
    by (simp_all add: base)
  have got: "map_get c1 ?K1 = Some ?E"
    unfolding c1 cleanCache_def
    by (rule map_get_filter_keep) (use survive in \<open>simp_all add: map_get_set_same\<close>)
  have mem: "(?K1, ?E) \<in> set c1"
    using got by (rule map_get_mem)
  have inc1: "\<And>x. x \<in> set c1 \<Longrightarrow> x = (?K1, ?E) \<or> x \<in> set c"
    unfolding c1 cleanCache_def using set_map_set by fastforce
  have fresh: "\<And>x. x \<in> set c1 \<Longrightarrow> prefix ?B (fst x) \<Longrightarrow> now2 - ce_timestamp (snd x) < 3000
                 \<Longrightarrow> x = (?K1, ?E)"
  proof -
    fix x assume x: "x \<in> set c1" "prefix ?B (fst x)" "now2 - ce_timestamp (snd x) < 3000"
    show "x = (?K1, ?E)"
    proof (rule ccontr)
      assume "x \<noteq> (?K1, ?E)"
      with inc1 [OF x(1)] have "x \<in> set c" by simp
      with miss x(2) have "\<not> now1 - ce_timestamp (snd x) < 3000" by blast
      with x(3) order show False by simp
    qed
  qed
  show ?thesis
  proof (cases "\<exists>cached. map_get c1 ?K2 = Some cached \<and> now2 - ce_timestamp cached < 5000")
    case True
    then obtain cached where cd: "map_get c1 ?K2 = Some cached" "now2 - ce_timestamp cached < 5000"
      by blast
    have "cached = ?E"
    proof (cases "?K2 = ?K1")
      case True
      with cd(1) got show ?thesis by simp
    next
      case False
      then have ne: "emotionKeyOf e2 \<noteq> emotionKeyOf e1"
        by (auto simp: cacheKeyOf_def same)
      from map_get_mem [OF cd(1)] inc1 False have "(?K2, cached) \<in> set c" by fastforce
      with exact ne cd(2) show ?thesis by fastforce
    qed
    with cd show ?thesis
      by (auto simp: synthesizeChunk_def Let_def)
  next
    case False
    then have ex: "(case map_get c1 ?K2 of None \<Rightarrow> None
                    | Some cached \<Rightarrow> if now2 - ce_timestamp cached < 5000 then Some cached else None) = None"
      by (auto split: option.splits)
    have "prefix ?B (fst (?K1, ?E)) \<and> now2 - ce_timestamp (snd (?K1, ?E)) < 3000"
      using near key_has_base [of v t1 l e1] by (simp add: base)
    with mem have "\<exists>x\<in>set c1. prefix ?B (fst x) \<and> now2 - ce_timestamp (snd x) < 3000"
      by (intro bexI [of _ "(?K1, ?E)"])
    then have "find (\<lambda>e. prefix ?B (fst e) \<and> now2 - ce_timestamp (snd e) < 3000) c1 \<noteq> None"
      unfolding find_None_iff by blast
    then obtain y where
      y: "find (\<lambda>e. prefix ?B (fst e) \<and> now2 - ce_timestamp (snd e) < 3000) c1 = Some y"
      by blast
    then have "y \<in> set c1" "prefix ?B (fst y)" "now2 - ce_timestamp (snd y) < 3000"
      by (auto simp: find_Some_iff in_set_conv_nth)
    from fresh [OF this] have "y = (?K1, ?E)" .
    with y ex show ?thesis
      by (simp add: synthesizeChunk_def Let_def)
  qed
qed

lemma exact_hit_iff:
  "snd (snd (synthesizeChunk c post v t l e now cn)) = ExactHit \<longleftrightarrow>
     (\<exists>x. map_get c (cacheKeyOf v t l e) = Some x \<and> now - ce_timestamp x < 5000)"
  by (auto simp: synthesizeChunk_def Let_def split: option.splits if_splits sum.splits)

lemma hit_is_young:
  assumes "snd (snd (synthesizeChunk c post v t l e now cn)) \<noteq> Provider"
  shows "\<exists>x\<in>set c. synthesizeChunk c post v t l e now cn
                      = (c, Inr (ce_result (snd x)), snd (snd (synthesizeChunk c post v t l e now cn)))
           \<and> now - ce_timestamp (snd x) < 5000"
proof (cases "\<exists>x. map_get c (cacheKeyOf v t l e) = Some x \<and> now - ce_timestamp x < 5000")
  case True
  then obtain x where x: "map_get c (cacheKeyOf v t l e) = Some x" "now - ce_timestamp x < 5000"
    by blast
  from map_get_mem [OF x(1)] x show ?thesis
    by (intro bexI [of _ "(cacheKeyOf v t l e, x)"]) (auto simp: synthesizeChunk_def Let_def)
next
  case False
  then have ex: "(case map_get c (cacheKeyOf v t l e) of None \<Rightarrow> None
                    | Some cached \<Rightarrow> if now - ce_timestamp cached < 5000 then Some cached else None) = None"
    by (auto split: option.splits)
  from assms ex obtain y where
    y: "find (\<lambda>e. prefix (baseTextKeyOf v t l) (fst e) \<and> now - ce_timestamp (snd e) < 3000) c = Some y"
    by (cases "find (\<lambda>e. prefix (baseTextKeyOf v t l) (fst e) \<and> now - ce_timestamp (snd e) < 3000) c")
       (auto simp: synthesizeChunk_def Let_def split: sum.splits)
  then have "y \<in> set c" "now - ce_timestamp (snd y) < 3000"
    by (auto simp: find_Some_iff in_set_conv_nth)
  with y ex show ?thesis
    by (intro bexI [of _ y]) (auto simp: synthesizeChunk_def Let_def)
qed


text \<open>
  C5, amended. (1) When a Synthesize call misses the cache and synthesizes successfully,
  and a second call with the same voice id, trimmed text and target language starts after
  it has returned and within 3 seconds of it, the second call is served from the cache
  and returns byte-identical audio, provided it has the same emotion bucket or the cache
  held, before the first call, no entry under the second call's exact key younger than 5
  seconds. (2) A call is served by its exact key if and only if the cache holds an entry
  under that key younger than 5 seconds. (3) Every call served from the cache returns the
  audio of an entry younger than 5 seconds, so never one older than 10 seconds.
\<close>

theorem synthesis_cache_lookup:
  "(synthesizeChunk c post v t1 l e1 now1 clean1 = (c1, Inr r, Provider)
      \<and> trim t2 = trim t1 \<and> now1 \<le> now2 \<and> clean1 \<le> now2 \<and> now2 - now1 < 3000
      \<and> (emotionKeyOf e2 = emotionKeyOf e1
           \<or> (\<forall>x\<in>set c. fst x = cacheKeyOf v t2 l e2 \<longrightarrow> \<not> (now2 - ce_timestamp (snd x) < 5000)))
      \<longrightarrow> (\<exists>how. synthesizeChunk c1 post' v t2 l e2 now2 clean2 = (c1, Inr r, how) \<and> how \<noteq> Provider))
   \<and> (snd (snd (synthesizeChunk c post v t l e now cn)) = ExactHit \<longleftrightarrow>
        (\<exists>x. map_get c (cacheKeyOf v t l e) = Some x \<and> now - ce_timestamp x < 5000))
   \<and> (snd (snd (synthesizeChunk c post v t l e now cn)) \<noteq> Provider \<longrightarrow>
        (\<exists>x\<in>set c. fst (snd (synthesizeChunk c post v t l e now cn)) = Inr (ce_result (snd x))
            \<and> fst (synthesizeChunk c post v t l e now cn) = c
            \<and> now - ce_timestamp (snd x) < 5000 \<and> \<not> (now - ce_timestamp (snd x) > 10000)))"
proof (intro conjI impI)
  assume a: "synthesizeChunk c post v t1 l e1 now1 clean1 = (c1, Inr r, Provider)
      \<and> trim t2 = trim t1 \<and> now1 \<le> now2 \<and> clean1 \<le> now2 \<and> now2 - now1 < 3000
      \<and> (emotionKeyOf e2 = emotionKeyOf e1
           \<or> (\<forall>x\<in>set c. fst x = cacheKeyOf v t2 l e2 \<longrightarrow> \<not> (now2 - ce_timestamp (snd x) < 5000)))"
  then have "clean1 - now1 \<le> 10000" by simp
  with a show "\<exists>how. synthesizeChunk c1 post' v t2 l e2 now2 clean2 = (c1, Inr r, how) \<and> how \<noteq> Provider"
    using second_call_served [of c post v t1 l e1 now1 clean1 c1 r t2 now2 e2 post' clean2] by blast
next
  show "snd (snd (synthesizeChunk c post v t l e now cn)) = ExactHit \<longleftrightarrow>
        (\<exists>x. map_get c (cacheKeyOf v t l e) = Some x \<and> now - ce_timestamp x < 5000)"
    by (rule exact_hit_iff)
next
  assume "snd (snd (synthesizeChunk c post v t l e now cn)) \<noteq> Provider"
  from hit_is_young [OF this] obtain x where
    "x \<in> set c"
    "synthesizeChunk c post v t l e now cn
       = (c, Inr (ce_result (snd x)), snd (snd (synthesizeChunk c post v t l e now cn)))"
    "now - ce_timestamp (snd x) < 5000"
    by blast
  then show "\<exists>x\<in>set c. fst (snd (synthesizeChunk c post v t l e now cn)) = Inr (ce_result (snd x))
            \<and> fst (synthesizeChunk c post v t l e now cn) = c
            \<and> now - ce_timestamp (snd x) < 5000 \<and> \<not> (now - ce_timestamp (snd x) > 10000)"
    by (intro bexI [of _ x]) (auto simp: fst_def snd_def split: prod.splits)
qed

theorem synthesis_cache_lookup_witness:
  "synthesizeChunk [] styledVoice ''v1'' ''merhaba'' ''tr'' (Some calm) 0 400
     = (cacheAfterCalm, Inr (Some ''Q0FMTQ==''), Provider)
   \<and> (\<exists>how. synthesizeChunk cacheAfterCalm styledVoice ''v1'' '' merhaba '' ''tr'' (Some excited) 2000 2400
               = (cacheAfterCalm, Inr (Some ''Q0FMTQ==''), how) \<and> how \<noteq> Provider)"
proof -
  have first: "synthesizeChunk [] styledVoice ''v1'' ''merhaba'' ''tr'' (Some calm) 0 400
     = (cacheAfterCalm, Inr (Some ''Q0FMTQ==''), Provider)"
    by (simp add: cacheAfterCalm_eval)
       (simp add: synthesizeChunk_def key_calm base_merhaba map_get_def
          styledVoice_emotional calm_settings cleanCache_def Let_def)
  have same: "trim '' merhaba '' = trim ''merhaba''"
    by (simp add: trim_def isSpace_def)
  have ex: "emotionKeyOf (Some excited) = emotionKeyOf (Some calm)
           \<or> (\<forall>x\<in>set ([] :: (string, cacheEntry) jsmap).
                 fst x = cacheKeyOf ''v1'' '' merhaba '' ''tr'' (Some excited)
                 \<longrightarrow> \<not> (2000 - ce_timestamp (snd x) < 5000))"
    by simp
  show ?thesis
    using synthesis_cache_lookup [THEN conjunct1, rule_format,
        of "[]" styledVoice "''v1''" "''merhaba''" "''tr''" "Some calm" 0 400 cacheAfterCalm
          "Some ''Q0FMTQ==''" "'' merhaba ''" 2000 "Some excited" styledVoice 2400]
      first same ex
    by simp
qed

subsection \<open>Pipeline orchestrator\<close>

lemma set_map_delete: "x \<in> set (map_delete m k) \<Longrightarrow> x \<in> set m"
  by (simp add: map_delete_def)

lemma start_keeps_sockets:
  assumes "socketsMatchKeys pl"
  shows "socketsMatchKeys (fst (startTranslationSession pl sid (sock_id s) ul pl' pv (Some s) r now a b))"
  using assms
  by (cases s)
     (auto simp: socketsMatchKeys_def startTranslationSession_def stopTranslationSession_def Let_def
        map_get_set_same dest!: set_map_delete set_map_set)

lemma stop_keeps_sockets:
  "socketsMatchKeys pl \<Longrightarrow> socketsMatchKeys (stopTranslationSession pl u)"
  by (auto simp: socketsMatchKeys_def stopTranslationSession_def split: option.splits
      dest!: set_map_delete)

lemma sockets_map_set:
  "socketsMatchKeys pl \<Longrightarrow> p_socket s = Some (Socket k) \<Longrightarrow>
   socketsMatchKeys (pl\<lparr>activeSessions := map_set (activeSessions pl) k s\<rparr>)"
  by (auto simp: socketsMatchKeys_def dest!: set_map_set)

lemma sockets_own:
  "socketsMatchKeys pl \<Longrightarrow> map_get (activeSessions pl) k = Some s \<Longrightarrow> p_socket s = Some (Socket k)"
  by (auto simp: socketsMatchKeys_def dest!: map_get_mem)

lemma find_mem: "find P xs = Some e \<Longrightarrow> e \<in> set xs"
  by (induction xs) (auto split: if_splits)

lemma sockets_partner:
  assumes "socketsMatchKeys pl" and "findPartnerSession pl k = Some e"
  shows "p_socket (snd e) = Some (Socket (fst e))"
proof -
  from assms(2) have "e \<in> set (activeSessions pl)"
    by (auto simp: findPartnerSession_def split: option.splits dest: find_mem)
  with assms(1) show ?thesis by (simp add: socketsMatchKeys_def)
qed

lemma chunk_keeps_sockets:
  assumes "socketsMatchKeys pl"
  shows "socketsMatchKeys (fst (handleSynthesisChunk pl userId chunk now))"
proof (cases "map_get (activeSessions pl) userId")
  case None
  then show ?thesis using assms by (simp add: handleSynthesisChunk_def)
next
  case (Some session)
  let ?s1 = "session\<lparr>p_stats := (p_stats session)\<lparr>n_synthesisChunks :=
                                     Suc (n_synthesisChunks (p_stats session))\<rparr>,
                                 p_lastActivity := now\<rparr>"
  have "socketsMatchKeys (pl\<lparr>activeSessions := map_set (activeSessions pl) userId ?s1\<rparr>)"
    using sockets_map_set [OF assms, of ?s1 userId] sockets_own [OF assms Some] by simp
  then show ?thesis
    using Some by (simp add: handleSynthesisChunk_def Let_def split: option.splits)
qed

lemma audio_keeps_sockets:
  assumes "socketsMatchKeys pl"
  shows "socketsMatchKeys (fst (processAudioData pl userId audioData now))"
proof (cases "map_get (activeSessions pl) userId")
  case None
  then show ?thesis using assms by (simp add: processAudioData_def)
next
  case (Some session)
  obtain t sent outs where sd: "sendAudioData (asr pl) userId audioData now = (t, sent, outs)"
    by (cases "sendAudioData (asr pl) userId audioData now") auto
  let ?s1 = "session\<lparr>p_stats := (p_stats session)\<lparr>n_audioChunks :=
                                            Suc (n_audioChunks (p_stats session))\<rparr>,
                                          p_lastActivity := now\<rparr>"
  let ?pl1 = "pl\<lparr>asr := t, activeSessions := map_set (activeSessions pl) userId ?s1\<rparr>"
  have own: "p_socket session = Some (Socket userId)"
    by (rule sockets_own [OF assms Some])
  have i0: "socketsMatchKeys (pl\<lparr>asr := t\<rparr>)"
    using assms by (simp add: socketsMatchKeys_def)
  have i1: "socketsMatchKeys ?pl1"
    using sockets_map_set [OF i0, of ?s1 userId] own by simp
  define pl2 where "pl2 = (case findPartnerSession ?pl1 userId of
                                None \<Rightarrow> ?pl1
                              | Some partner \<Rightarrow>
                                  ?pl1\<lparr>activeSessions := map_set (activeSessions ?pl1) (fst partner)
                                        ((snd partner)\<lparr>p_lastActivity := now\<rparr>)\<rparr>)"
  have i2: "socketsMatchKeys pl2"
  proof (cases "findPartnerSession ?pl1 userId")
    case None
    then show ?thesis using i1 by (simp add: pl2_def)
  next
    case (Some partner)
    from sockets_partner [OF i1 Some]
    have "p_socket ((snd partner)\<lparr>p_lastActivity := now\<rparr>) = Some (Socket (fst partner))" by simp
    from sockets_map_set [OF i1 this] Some show ?thesis by (simp add: pl2_def)
  qed
  have i3: "\<And>b. socketsMatchKeys (pl2\<lparr>activeSessions := map_set (activeSessions pl2) userId
                                        (?s1\<lparr>p_audioBuffer := b\<rparr>)\<rparr>)"
    using sockets_map_set [OF i2, of _ userId] own by simp
  show ?thesis
  proof (cases "p_isActive session \<and> sent")
    case True
    then show ?thesis
      using i3 by (simp add: processAudioData_def Some sd Let_def pl2_def)
  next
    case False
    then show ?thesis
      using assms i0 by (auto simp: processAudioData_def Some sd)
  qed
qed



lemma pairPipeline_sessions:
  "activeSessions pairPipeline =
     [(''d1'', \<lparr>p_sessionId = ''S3'', p_userId = ''d1'', p_userLanguage = ''tr'',
                p_partnerLanguage = ''en'', p_partnerVoiceId = ''v2'', p_socket = Some (Socket ''d1''),
                p_role = ''doctor'', p_isActive = True, p_startTime = 100, p_lastActivity = 100,
                p_stats = \<lparr>n_audioChunks = 0, n_partialResults = 0, n_finalResults = 0,
                           n_translations = 0, n_synthesisChunks = 0\<rparr>,
                p_audioBuffer = None, p_lastProcessedNormalized = None, p_lastProcessedAt = None\<rparr>),
      (''p2'', \<lparr>p_sessionId = ''S3'', p_userId = ''p2'', p_userLanguage = ''en'',
                p_partnerLanguage = ''tr'', p_partnerVoiceId = ''v3'', p_socket = Some (Socket ''p2''),
                p_role = ''patient'', p_isActive = True, p_startTime = 100, p_lastActivity = 100,
                p_stats = \<lparr>n_audioChunks = 0, n_partialResults = 0, n_finalResults = 0,
                           n_translations = 0, n_synthesisChunks = 0\<rparr>,
                p_audioBuffer = None, p_lastProcessedNormalized = None, p_lastProcessedAt = None\<rparr>)]"
  by (simp add: pairPipeline_def startTranslationSession_def Let_def)

lemma pairPipeline_asr: "asr pairPipeline = streamingAsr"
  by (simp add: pairPipeline_def startTranslationSession_def Let_def)








lemma sendAudioData_sent_any:
  "fst (snd (sendAudioData t userId a now)) = fst (snd (sendAudioData t userId b now))"
  by (auto simp: sendAudioData_def googleSendAudioData_def assemblySendAudioData_def
      whisperSendAudioData_def Let_def split: option.splits)

text \<open>
  C9, as stated, fails: the frame "AAAA" decodes to 3 bytes, an odd number, and the
  server accepts it and sends it to the recognizer's stream.
\<close>

theorem odd_frame_forwarded_counterexample:
  "\<not> (2 dvd base64ByteLength ''AAAA'')
   \<and> snd (onStreamingAudio pairPipeline (Socket ''p2'') ''AAAA'' 1000) = (True, [DeepgramSend ''AAAA''])"
  by (simp add: onStreamingAudio_def processAudioData_def pairPipeline_sessions pairPipeline_asr
      map_get_def sendAudioData_def streamingAsr_def base64ByteLength_def findPartnerSession_def
      Let_def)

text \<open>
  C9, amended. The server never looks at the length of an inbound audio frame: whether
  a frame is accepted is the same for every frame (it depends on the sender's pipeline
  session and recognizer connection only), a sender without an active pipeline session
  has every frame dropped, and a sender with an active session and an open streaming
  connection has every frame sent to the recognizer's stream.
\<close>

theorem frame_length_never_checked:
  "fst (snd (onStreamingAudio pl sock a now)) = fst (snd (onStreamingAudio pl sock b now))
   \<and> ((case map_get (activeSessions pl) (sock_id sock) of None \<Rightarrow> True | Some s \<Rightarrow> \<not> p_isActive s)
        \<longrightarrow> snd (onStreamingAudio pl sock a now) = (False, []))
   \<and> ((\<exists>s c. map_get (activeSessions pl) (sock_id sock) = Some s \<and> p_isActive s
           \<and> map_get (t_activeConnections (asr pl)) (sock_id sock) = Some c \<and> cn_isConnected c
           \<and> \<not> cn_restMode c \<and> cn_ws c = Some WsOpen)
        \<longrightarrow> snd (onStreamingAudio pl sock a now) = (True, [DeepgramSend a]))"
proof (intro conjI impI)
  show "fst (snd (onStreamingAudio pl sock a now)) = fst (snd (onStreamingAudio pl sock b now))"
    using sendAudioData_sent_any [of "asr pl" "sock_id sock" a now b]
    by (auto simp: onStreamingAudio_def processAudioData_def Let_def split: option.splits prod.splits)
next
  assume "case map_get (activeSessions pl) (sock_id sock) of None \<Rightarrow> True | Some s \<Rightarrow> \<not> p_isActive s"
  then show "snd (onStreamingAudio pl sock a now) = (False, [])"
    by (auto simp: onStreamingAudio_def processAudioData_def split: option.splits)
next
  assume "\<exists>s c. map_get (activeSessions pl) (sock_id sock) = Some s \<and> p_isActive s
           \<and> map_get (t_activeConnections (asr pl)) (sock_id sock) = Some c \<and> cn_isConnected c
           \<and> \<not> cn_restMode c \<and> cn_ws c = Some WsOpen"
  then show "snd (onStreamingAudio pl sock a now) = (True, [DeepgramSend a])"
    by (auto simp: onStreamingAudio_def processAudioData_def sendAudioData_def Let_def)
qed

theorem frame_length_never_checked_witness:
  "snd (onStreamingAudio pairPipeline (Socket ''p2'') ''AAAA'' 1000) = (True, [DeepgramSend ''AAAA''])
   \<and> snd (onStreamingAudio pairPipeline (Socket ''p2'') ''AAAAAAAA'' 1000) = (True, [DeepgramSend ''AAAAAAAA''])
   \<and> snd (onStreamingAudio pairPipeline (Socket ''x9'') ''AAAAAAAA'' 1000) = (False, [])"
proof -
  have live: "\<exists>s c. map_get (activeSessions pairPipeline) (sock_id (Socket ''p2'')) = Some s \<and> p_isActive s
           \<and> map_get (t_activeConnections (asr pairPipeline)) (sock_id (Socket ''p2'')) = Some c
           \<and> cn_isConnected c \<and> \<not> cn_restMode c \<and> cn_ws c = Some WsOpen"
    by (simp add: pairPipeline_sessions pairPipeline_asr streamingAsr_def map_get_def)
  have gone: "case map_get (activeSessions pairPipeline) (sock_id (Socket ''x9'')) of
                None \<Rightarrow> True | Some s \<Rightarrow> \<not> p_isActive s"
    by (simp add: pairPipeline_sessions map_get_def)
  show ?thesis
    using frame_length_never_checked [of pairPipeline "Socket ''p2''" "''AAAA''" 1000 "''AAAA''",
        THEN conjunct2, THEN conjunct2, rule_format, OF live]
      frame_length_never_checked [of pairPipeline "Socket ''p2''" "''AAAAAAAA''" 1000 "''AAAA''",
        THEN conjunct2, THEN conjunct2, rule_format, OF live]
      frame_length_never_checked [of pairPipeline "Socket ''x9''" "''AAAAAAAA''" 1000 "''AAAA''",
        THEN conjunct2, THEN conjunct1, rule_format, OF gone]
    by simp
qed

subsection \<open>Utterance gate: deciding and firing\<close>






























end
